theory Spec2Isabelle
  imports Main "HOL-Library.Word"
begin

section \<open>Scalar types of the Go sources\<close>

text \<open>
  \<^verbatim>\<open>int64\<close> and \<^verbatim>\<open>time.Duration\<close> are 64-bit two's complement integers; \<^verbatim>\<open>uint\<close> is
  the 64-bit unsigned integer of a 64-bit platform. All three are \<open>64 word\<close>: the signed
  ones are read with \<open>sint\<close> and compared with \<open><s\<close>, the unsigned one is read with
  \<open>uint\<close>. The conversion \<^verbatim>\<open>int64(c.Conns)\<close> keeps the bits, so it is the identity on
  \<open>64 word\<close>. A \<^verbatim>\<open>context.Context\<close> is modelled by what the code can observe of it: the
  answer of its \<^verbatim>\<open>Done()\<close> channel at the k-th poll.
\<close>

type_synonym int64 = "64 word"
type_synonym uint = "64 word"
type_synonym time_Duration = "64 word"
type_synonym Context = "nat \<Rightarrow> bool"

section \<open>The standard library and the operating system\<close>

text \<open>
  What the sources call outside the repository is a parameter of the model:
  \<^verbatim>\<open>url.ParseRequestURI\<close> (an error text or the parsed URL), \<^verbatim>\<open>os.OpenFile\<close> for reading,
  \<^verbatim>\<open>json.Unmarshal\<close> into a \<^verbatim>\<open>map[string]interface{}\<close> (the error text, if any),
  \<^verbatim>\<open>tls.LoadX509KeyPair\<close> and \<^verbatim>\<open>http2.ConfigureClient\<close> (an error text, or the client as
  the library has configured it; its second argument is \<^verbatim>\<open>ClientOpts.MaxResponseTime\<close>).
  Several structs of the sources share field names; the name of the record qualifies
  a field where that matters (\<open>worker_Config.ReqURI\<close>), and an unqualified field is one
  of \<^verbatim>\<open>config.Config\<close>.
\<close>

record URL =
  Scheme :: string
  Host :: string

datatype open_result = Opened | NotExist | OpenFailed string

type_synonym Certificate = string

record tls_Config =
  InsecureSkipVerify :: bool
  Certificates :: "Certificate list"

record HostClient =
  Addr :: string
  IsTLS :: bool
  MaxConns :: nat
  ReadTimeout :: time_Duration
  WriteTimeout :: time_Duration
  DisableHeaderNamesNormalizing :: bool
  TLSConfig :: tls_Config

record stdlib =
  url_ParseRequestURI :: "string \<Rightarrow> string + URL"
  os_OpenFile :: "string \<Rightarrow> open_result"
  json_Unmarshal :: "string \<Rightarrow> string option"
  tls_LoadX509KeyPair :: "string \<Rightarrow> string \<Rightarrow> string + Certificate"
  http2_ConfigureClient :: "HostClient \<Rightarrow> time_Duration \<Rightarrow> string + HostClient"

section \<open>Regular expressions\<close>

text \<open>
  The fragment of Go's \<^verbatim>\<open>regexp\<close> syntax that \<^verbatim>\<open>regEx\<close> uses: literal bytes, \<^verbatim>\<open>[^/]\<close>, \<^verbatim>\<open>.\<close> (any
  character but a newline), \<^verbatim>\<open>\d\<close> (an ASCII digit), concatenation, \<^verbatim>\<open>?\<close>, \<^verbatim>\<open>*\<close> and \<^verbatim>\<open>+\<close>.
  Groups, capturing or not, do not change what matches. Strings are byte lists; no byte
  of a multi-byte UTF-8 character is a newline, so \<^verbatim>\<open>.\<close> can be read bytewise.
  Matching is by Brzozowski derivatives.
\<close>

datatype cclass = Lit char | NotLit char | Dot | Digit | AnyByte

datatype regexp =
  Nothing
  | Eps
  | Cls cclass
  | Cat regexp regexp
  | Alt regexp regexp
  | Star regexp

fun is_digit :: "char \<Rightarrow> bool" where
  "is_digit c = (c \<in> set ''0123456789'')"

fun in_class :: "cclass \<Rightarrow> char \<Rightarrow> bool" where
  "in_class (Lit a) c = (c = a)"
| "in_class (NotLit a) c = (c \<noteq> a)"
| "in_class Dot c = (c \<noteq> CHR 0x0A)"
| "in_class Digit c = is_digit c"
| "in_class AnyByte c = True"

definition Opt :: "regexp \<Rightarrow> regexp" where
  "Opt r = Alt r Eps"

definition Plus :: "regexp \<Rightarrow> regexp" where
  "Plus r = Cat r (Star r)"

fun Lits :: "string \<Rightarrow> regexp" where
  "Lits [] = Eps"
| "Lits (c # cs) = Cat (Cls (Lit c)) (Lits cs)"

fun nullable :: "regexp \<Rightarrow> bool" where
  "nullable Nothing = False"
| "nullable Eps = True"
| "nullable (Cls k) = False"
| "nullable (Cat r s) = (nullable r \<and> nullable s)"
| "nullable (Alt r s) = (nullable r \<or> nullable s)"
| "nullable (Star r) = True"

text \<open>Concatenation and alternative that drop a branch matching nothing.\<close>

fun cat :: "regexp \<Rightarrow> regexp \<Rightarrow> regexp" where
  "cat Nothing s = Nothing"
| "cat Eps s = s"
| "cat r s = Cat r s"

fun alt :: "regexp \<Rightarrow> regexp \<Rightarrow> regexp" where
  "alt Nothing s = s"
| "alt r Nothing = r"
| "alt r s = Alt r s"

fun deriv :: "char \<Rightarrow> regexp \<Rightarrow> regexp" where
  "deriv c Nothing = Nothing"
| "deriv c Eps = Nothing"
| "deriv c (Cls k) = (if in_class k c then Eps else Nothing)"
| "deriv c (Cat r s) =
     (if nullable r then alt (cat (deriv c r) s) (deriv c s) else cat (deriv c r) s)"
| "deriv c (Alt r s) = alt (deriv c r) (deriv c s)"
| "deriv c (Star r) = cat (deriv c r) (Star r)"

fun matches :: "regexp \<Rightarrow> string \<Rightarrow> bool" where
  "matches r [] = nullable r"
| "matches r (c # cs) = matches (deriv c r) cs"

text \<open>
  \<^verbatim>\<open>Regexp.MatchString\<close> reports whether the string contains a match anywhere: the
  pattern is not anchored.
\<close>

definition MatchString :: "regexp \<Rightarrow> string \<Rightarrow> bool" where
  "MatchString r s = matches (Cat (Star (Cls AnyByte)) (Cat r (Star (Cls AnyByte)))) s"

section \<open>Package worker\<close>

record worker_Config =
  ReqURI :: string
  DisableKeepAlive :: bool
  SkipVerify :: bool
  MTLSKey :: string
  MTLSCert :: string
  Reqs :: int64
  Ctx :: Context
  StartTrigger :: nat
  Until :: time_Duration
  ReqEvery :: time_Duration
  ReadTimeout :: time_Duration
  WriteTimeout :: time_Duration
  Method :: string
  Verbose :: bool
  HTTPV2 :: bool

type_synonym ResponseCode = int
type_synonym ReqLatency = "int64 \<times> int64"

text \<open>
  The two Go maps of \<^verbatim>\<open>Stats\<close> are read through \<^verbatim>\<open>m[k]++\<close>, where a missing key counts
  as zero: they are total functions into the counts.
\<close>

record Stats =
  CompletedReqs :: int64
  FailedReqs :: int64
  Reqs :: "ReqLatency list"
  Responses :: "ResponseCode \<Rightarrow> int64"
  Errors :: "string \<Rightarrow> nat"

record WorkerBase =
  config :: worker_Config
  client :: HostClient
  stats :: Stats

datatype Worker =
  WorkerFixedReqs WorkerBase
  | WorkerFixedTime WorkerBase
  | WorkerFixedTimeRequests WorkerBase

definition TimeLimited :: "worker_Config \<Rightarrow> bool" where
  "TimeLimited c = (Until c \<noteq> 0)"

definition UnlimitedReqs :: "worker_Config \<Rightarrow> bool" where
  "UnlimitedReqs c = (Until c \<noteq> 0 \<and> worker_Config.Reqs c = 0)"

definition baseConfig :: "worker_Config \<Rightarrow> HostClient \<Rightarrow> WorkerBase" where
  "baseConfig cfg cl =
     \<lparr>config = cfg, client = cl,
      stats = \<lparr>CompletedReqs = 0, FailedReqs = 0, Stats.Reqs = [],
               Responses = (\<lambda>code. 0), Errors = (\<lambda>kind. 0)\<rparr>\<rparr>"

text \<open>
  \<^verbatim>\<open>getClient\<close>, lines 110-156. The client certificate is loaded only when both paths are
  set; a failure to load it, to parse the URI or to configure HTTP/2 is the error returned.
\<close>

definition getClient :: "stdlib \<Rightarrow> worker_Config \<Rightarrow> string + HostClient" where
  "getClient lib cfg =
     (let tlsConfig = \<lparr>InsecureSkipVerify = worker_Config.SkipVerify cfg, Certificates = []\<rparr>
      in case
           (if worker_Config.MTLSCert cfg \<noteq> [] \<and> worker_Config.MTLSKey cfg \<noteq> [] then
              (case tls_LoadX509KeyPair lib (worker_Config.MTLSCert cfg)
                      (worker_Config.MTLSKey cfg) of
                 Inl err \<Rightarrow> Inl err
               | Inr cert \<Rightarrow> Inr (tlsConfig\<lparr>Certificates := [cert]\<rparr>))
            else Inr tlsConfig)
         of
           Inl err \<Rightarrow> Inl err
         | Inr tlsConfig \<Rightarrow>
             (case url_ParseRequestURI lib (worker_Config.ReqURI cfg) of
                Inl err \<Rightarrow> Inl err
              | Inr u \<Rightarrow>
                  (let cl =
                     \<lparr>Addr = Host u, IsTLS = (Scheme u = ''https''), MaxConns = 1,
                      HostClient.ReadTimeout = worker_Config.ReadTimeout cfg,
                      HostClient.WriteTimeout = worker_Config.WriteTimeout cfg,
                      DisableHeaderNamesNormalizing = True, TLSConfig = tlsConfig\<rparr>
                   in if \<not> HTTPV2 cfg then Inr cl
                      else http2_ConfigureClient lib cl (worker_Config.ReadTimeout cfg))))"

text \<open>
  The package-level pools. A \<^verbatim>\<open>sync.Pool\<close> is represented by the object its \<^verbatim>\<open>New\<close>
  function builds; \<open>None\<close> is the \<^verbatim>\<open>nil\<close> pointer the variables start with. The closure of
  \<^verbatim>\<open>requestPool\<close> reads the Config it captured, and nothing in the sources writes a
  \<^verbatim>\<open>worker.Config\<close> after it is built, so the request it builds is fixed at the capture.
  A \<^verbatim>\<open>fasthttp.Request\<close> is the three things the closure sets: the headers added, the method
  bytes (empty in a fresh request) and the request URI.
\<close>

datatype 'a sync_Pool = Pool (New: 'a)

record fasthttp_Request =
  Header :: "(string \<times> string) list"
  MethodBytes :: string
  RequestURI :: string

datatype fasthttp_Response = Response

record globals =
  requestPool :: "fasthttp_Request sync_Pool option"
  responsePool :: "fasthttp_Response sync_Pool option"

definition init_globals :: globals where
  "init_globals = \<lparr>requestPool = None, responsePool = None\<rparr>"

text \<open>Lines 76-86: the body of the closure.\<close>

definition requestPool_New :: "worker_Config \<Rightarrow> fasthttp_Request" where
  "requestPool_New cfg =
     (let req = \<lparr>Header = [], MethodBytes = [], RequestURI = []\<rparr>;
          req = (if worker_Config.DisableKeepAlive cfg
                 then req\<lparr>Header := Header req @ [(''Connection'', ''close'')]\<rparr> else req);
          req = (if worker_Config.Method cfg \<noteq> ''GET''
                 then req\<lparr>MethodBytes := worker_Config.Method cfg\<rparr> else req)
      in req\<lparr>RequestURI := worker_Config.ReqURI cfg\<rparr>)"

text \<open>\<^verbatim>\<open>NewWorker\<close>, lines 63-97: the worker or the error, and the package variables after the call.\<close>

definition NewWorker :: "stdlib \<Rightarrow> globals \<Rightarrow> worker_Config \<Rightarrow> (string + Worker) \<times> globals" where
  "NewWorker lib g cfg =
     (case getClient lib cfg of
        Inl err \<Rightarrow> (Inl err, g)
      | Inr cl \<Rightarrow>
          (let g = (if responsePool g = None then g\<lparr>responsePool := Some (Pool Response)\<rparr> else g);
               g = (if requestPool g = None
                    then g\<lparr>requestPool := Some (Pool (requestPool_New cfg))\<rparr> else g)
           in if \<not> TimeLimited cfg then (Inr (WorkerFixedReqs (baseConfig cfg cl)), g)
              else if UnlimitedReqs cfg
              then (Inr (WorkerFixedTime (baseConfig cfg cl)), g)
              else (Inr (WorkerFixedTimeRequests (baseConfig cfg cl)), g)))"

text \<open>A sequence of \<^verbatim>\<open>NewWorker\<close> calls, threading the package variables.\<close>

fun NewWorker_calls :: "stdlib \<Rightarrow> globals \<Rightarrow> worker_Config list \<Rightarrow> globals" where
  "NewWorker_calls lib g [] = g"
| "NewWorker_calls lib g (cfg # configs) =
     NewWorker_calls lib (snd (NewWorker lib g cfg)) configs"

subsection \<open>The request loop of a fixed-requests worker\<close>

text \<open>
  The network as one worker sees it: the outcome of its k-th request (a status code or
  the kind of a transport error) and the monotonic clock at its k-th reading.
\<close>

datatype outcome = Status ResponseCode | TransportError string

record network =
  send :: "nat \<Rightarrow> outcome"
  clock :: "nat \<Rightarrow> int64"

text \<open>
  Modelled from the spec: \<^verbatim>\<open>WorkerBase.run\<close>, the per-request sequence that
  \<^verbatim>\<open>WorkerFixedReqs.Run\<close> calls, is not in src/. Section 4.4 of the spec: read the clock,
  send, read the clock; on success record the outcome, increment completed and bump the
  status histogram; on failure record the outcome, increment failed and bump the error
  histogram. The worker's requests are numbered by the outcomes it has recorded.
\<close>

definition WorkerBase_run :: "network \<Rightarrow> WorkerBase \<Rightarrow> WorkerBase" where
  "WorkerBase_run net w =
     (let st = stats w;
          n = length (Stats.Reqs st);
          t_begin = clock net (2 * n);
          result = send net n;
          t_end = clock net (2 * n + 1);
          st = st\<lparr>Stats.Reqs := Stats.Reqs st @ [(t_begin, t_end)]\<rparr>
      in case result of
           Status code \<Rightarrow>
             w\<lparr>stats := st\<lparr>CompletedReqs := CompletedReqs st + 1,
                            Responses := (Responses st)(code := Responses st code + 1)\<rparr>\<rparr>
         | TransportError kind \<Rightarrow>
             w\<lparr>stats := st\<lparr>FailedReqs := FailedReqs st + 1,
                            Errors := (Errors st)(kind := Errors st kind + 1)\<rparr>\<rparr>)"

text \<open>
  One \<^verbatim>\<open>for i = 0; i < w.config.Reqs; i++\<close> loop with its \<^verbatim>\<open>select\<close> (lines 175-183 and
  187-195): \<open>i\<close> is the \<^verbatim>\<open>int64\<close> counter, \<open>k\<close> the number of polls of \<^verbatim>\<open>Ctx.Done()\<close> so
  far. The result says whether the loop left through \<^verbatim>\<open>return\<close>, and gives the polls and
  the worker at that point.
\<close>

function WorkerFixedReqs_loop ::
  "network \<Rightarrow> int64 \<Rightarrow> nat \<Rightarrow> WorkerBase \<Rightarrow> bool \<times> nat \<times> WorkerBase" where
  "WorkerFixedReqs_loop net i k w =
     (if i <s worker_Config.Reqs (config w) then
        (if worker_Config.Ctx (config w) k then (True, Suc k, w)
         else WorkerFixedReqs_loop net (i + 1) (Suc k) (WorkerBase_run net w))
      else (False, k, w))"
  by pat_completeness auto
termination
proof (relation "measure (\<lambda>(net, i, k, w). nat (sint (worker_Config.Reqs (config w)) - sint i))")
  show "wf (measure (\<lambda>(net, i, k, w). nat (sint (worker_Config.Reqs (config w)) - sint i)))"
    by simp
next
  fix net :: network and i :: int64 and k :: nat and w :: WorkerBase
  assume less: "i <s worker_Config.Reqs (config w)"
  have same: "config (WorkerBase_run net w) = config w"
    by (simp add: WorkerBase_run_def Let_def split: outcome.splits)
  have lt: "sint i < sint (worker_Config.Reqs (config w))"
    using less by (simp add: word_sless_alt)
  have "sint (worker_Config.Reqs (config w)) < 2 ^ (LENGTH(64) - 1)"
    by (rule sint_lt)
  moreover have "- (2 ^ (LENGTH(64) - 1)) \<le> sint i"
    by (rule sint_ge)
  ultimately have "sint (i + 1) = sint i + 1"
    using lt by (simp add: sint_word_ariths signed_take_bit_int_eq_self)
  with lt same
  show "((net, i + 1, Suc k, WorkerBase_run net w), (net, i, k, w))
          \<in> measure (\<lambda>(net, i, k, w). nat (sint (worker_Config.Reqs (config w)) - sint i))"
    by simp
qed

text \<open>
  \<^verbatim>\<open>WorkerFixedReqs.Run\<close>, lines 167-196, from the moment \<^verbatim>\<open>StartTrigger.Wait()\<close> returns.
  A \<^verbatim>\<open>return\<close> inside the verbose loop leaves the function; otherwise control falls
  through to the second loop.
\<close>

definition WorkerFixedReqs_Run :: "network \<Rightarrow> WorkerBase \<Rightarrow> WorkerBase" where
  "WorkerFixedReqs_Run net w =
     (if worker_Config.Verbose (config w) then
        (case WorkerFixedReqs_loop net 0 0 w of
           (True, k, w') \<Rightarrow> w'
         | (False, k, w') \<Rightarrow> snd (snd (WorkerFixedReqs_loop net 0 k w')))
      else snd (snd (WorkerFixedReqs_loop net 0 0 w)))"

section \<open>Package nethttp\<close>

text \<open>
  \<^verbatim>\<open>http_clients.Config\<close> is declared outside src/; the record has the fields that the
  two constructors read. A \<^verbatim>\<open>Client\<close> is the TLS configuration of its transport and its
  timeout (zero when none is set).
\<close>

record http_clients_Config =
  SkipVerify :: bool
  MTLSCert :: string
  MTLSKey :: string
  ReadTimeout :: time_Duration
  WriteTimeout :: time_Duration

record nethttp_Client =
  TLSClientConfig :: tls_Config
  Timeout :: time_Duration

text \<open>Lines 64-84.\<close>

definition GetNetHTTPClient :: "stdlib \<Rightarrow> http_clients_Config \<Rightarrow> string + nethttp_Client" where
  "GetNetHTTPClient lib cfg =
     (let tlsConfig = \<lparr>InsecureSkipVerify = http_clients_Config.SkipVerify cfg,
                       Certificates = []\<rparr>
      in case
           (if http_clients_Config.MTLSCert cfg \<noteq> [] \<and> http_clients_Config.MTLSKey cfg \<noteq> []
            then
              (case tls_LoadX509KeyPair lib (http_clients_Config.MTLSCert cfg)
                      (http_clients_Config.MTLSKey cfg) of
                 Inl err \<Rightarrow> Inl err
               | Inr cert \<Rightarrow> Inr (tlsConfig\<lparr>Certificates := [cert]\<rparr>))
            else Inr tlsConfig)
         of
           Inl err \<Rightarrow> Inl err
         | Inr tlsConfig \<Rightarrow>
             Inr \<lparr>TLSClientConfig = tlsConfig,
                  Timeout = http_clients_Config.ReadTimeout cfg
                            + http_clients_Config.WriteTimeout cfg\<rparr>)"

text \<open>Lines 86-108.\<close>

definition GetNetHTTP3Client :: "stdlib \<Rightarrow> http_clients_Config \<Rightarrow> string + nethttp_Client" where
  "GetNetHTTP3Client lib cfg =
     (let tlsConfig = \<lparr>InsecureSkipVerify = http_clients_Config.SkipVerify cfg,
                       Certificates = []\<rparr>
      in case
           (if http_clients_Config.MTLSCert cfg \<noteq> [] \<and> http_clients_Config.MTLSKey cfg \<noteq> []
            then
              (case tls_LoadX509KeyPair lib (http_clients_Config.MTLSCert cfg)
                      (http_clients_Config.MTLSKey cfg) of
                 Inl err \<Rightarrow> Inl err
               | Inr cert \<Rightarrow> Inr (tlsConfig\<lparr>Certificates := [cert]\<rparr>))
            else Inr tlsConfig)
         of
           Inl err \<Rightarrow> Inl err
         | Inr tlsConfig \<Rightarrow> Inr \<lparr>TLSClientConfig = tlsConfig, Timeout = 0\<rparr>)"

section \<open>Package config\<close>

record Config =
  Ctx :: Context
  ReqURI :: string
  DisableKeepAlive :: bool
  ReqTarget :: int64
  Conns :: uint
  Duration :: time_Duration
  MTLSKey :: string
  MTLSCert :: string
  SkipVerify :: bool
  ReadTimeout :: time_Duration
  WriteTimeout :: time_Duration
  Method :: string
  Verbose :: bool
  VerboseTicker :: time_Duration
  JwtKID :: string
  JwtKey :: string
  JwtSub :: string
  JwtCustomClaimsJSON :: string
  JwtIss :: string
  JwtAud :: string
  JwtHeader :: string
  JwtsFilename :: string
  SendJWT :: bool
  Headers :: "string list"
  Body :: string
  BodyFile :: string
  Client :: string

text \<open>
  The errors of \<^verbatim>\<open>Validate\<close>, one constructor for each message. The two
  \<^verbatim>\<open>"can only send jwts when request number is specified"\<close> errors carry the same message
  and are one constructor.
\<close>

datatype error =
  ErrInvalidRequestURI string
  | errConnLimit
  | ErrZeroConns
  | ErrURLFormat string
  | ErrMTLSKeyNotExist
  | ErrMTLSKeyOpen string
  | ErrMTLSCertNotExist
  | ErrMTLSCertOpen string
  | ErrEmptyJwtHeader
  | ErrEmptyJwtSource
  | ErrJwtKeyNotExist
  | ErrJwtKeyOpen string
  | ErrJwtNeedsReqs
  | ErrJwtFileNotExist string
  | ErrJwtFileOpen string
  | ErrHeaderNoColon string
  | ErrBodyFileNotExist
  | ErrBodyFileOpen string
  | ErrTickerZero
  | ErrMethodNotAllowed string
  | ErrWriteTimeoutZero
  | ErrReadTimeoutZero
  | ErrNoBudget
  | ErrJwtClaims string

text \<open>\<^verbatim>\<open>const regEx = `https?:\/\/(.)*(?::\d+)`\<close>\<close>

definition regEx :: regexp where
  "regEx =
     Cat (Lits ''http'') (Cat (Opt (Cls (Lit (CHR ''s'')))) (Cat (Lits ''://'')
       (Cat (Star (Cls Dot)) (Cat (Cls (Lit (CHR '':''))) (Plus (Cls Digit))))))"

definition regExHostURI_MatchString :: "string \<Rightarrow> bool" where
  "regExHostURI_MatchString s = MatchString regEx s"

definition allowedMethods :: "string list" where
  "allowedMethods = [''GET'', ''PUT'', ''POST'', ''DELETE'']"

fun methodAllowed_loop :: "string list \<Rightarrow> string \<Rightarrow> bool" where
  "methodAllowed_loop [] method = False"
| "methodAllowed_loop (m # ms) method = (if method = m then True else methodAllowed_loop ms method)"

definition methodAllowed :: "string \<Rightarrow> bool" where
  "methodAllowed method = methodAllowed_loop allowedMethods method"

definition JwtCustomClaimsJSONStringToMap :: "stdlib \<Rightarrow> string \<Rightarrow> string option" where
  "JwtCustomClaimsJSONStringToMap lib jwtCustomClaimsJSON =
     (if jwtCustomClaimsJSON = [] then None else json_Unmarshal lib jwtCustomClaimsJSON)"

text \<open>
  \<^verbatim>\<open>Validate\<close> has a pointer receiver and returns an error: the model returns the error
  (\<open>None\<close> for \<^verbatim>\<open>nil\<close>) and the Config as the call leaves it. It is a sequence of checks,
  each returning at its first error; \<open>run_checks\<close> runs a list of them in order.
\<close>

type_synonym check = "Config \<Rightarrow> error option \<times> Config"

fun run_checks :: "check list \<Rightarrow> check" where
  "run_checks [] c = (None, c)"
| "run_checks (f # fs) c =
     (case f c of (Some e, c') \<Rightarrow> (Some e, c') | (None, c') \<Rightarrow> run_checks fs c')"

text \<open>Lines 216-218: the request URI parses.\<close>

definition check_ParseRequestURI :: "stdlib \<Rightarrow> check" where
  "check_ParseRequestURI lib c =
     (case url_ParseRequestURI lib (ReqURI c) of
        Inl err \<Rightarrow> (Some (ErrInvalidRequestURI err), c)
      | Inr u \<Rightarrow> (None, c))"

text \<open>Lines 219-221.\<close>

definition check_ConnLimit_NoDuration :: check where
  "check_ConnLimit_NoDuration c =
     (if ReqTarget c <s Conns c \<and> Duration c = 0 then (Some errConnLimit, c) else (None, c))"

text \<open>Lines 222-224.\<close>

definition check_ConnLimit_Both :: check where
  "check_ConnLimit_Both c =
     (if ReqTarget c <s Conns c \<and> ReqTarget c \<noteq> 0 \<and> Duration c \<noteq> 0
      then (Some errConnLimit, c) else (None, c))"

text \<open>Lines 225-227.\<close>

definition check_ZeroConns :: check where
  "check_ZeroConns c = (if Conns c = 0 then (Some ErrZeroConns, c) else (None, c))"

text \<open>Lines 229-231.\<close>

definition check_regExHostURI :: check where
  "check_regExHostURI c =
     (if \<not> regExHostURI_MatchString (ReqURI c) then (Some (ErrURLFormat (ReqURI c)), c)
      else (None, c))"

text \<open>Lines 233-241.\<close>

definition check_MTLSKey :: "stdlib \<Rightarrow> check" where
  "check_MTLSKey lib c =
     (if MTLSKey c \<noteq> [] then
        (case os_OpenFile lib (MTLSKey c) of
           NotExist \<Rightarrow> (Some ErrMTLSKeyNotExist, c)
         | OpenFailed err \<Rightarrow> (Some (ErrMTLSKeyOpen err), c)
         | Opened \<Rightarrow> (None, c))
      else (None, c))"

text \<open>Lines 242-250.\<close>

definition check_MTLSCert :: "stdlib \<Rightarrow> check" where
  "check_MTLSCert lib c =
     (if MTLSCert c \<noteq> [] then
        (case os_OpenFile lib (MTLSCert c) of
           NotExist \<Rightarrow> (Some ErrMTLSCertNotExist, c)
         | OpenFailed err \<Rightarrow> (Some (ErrMTLSCertOpen err), c)
         | Opened \<Rightarrow> (None, c))
      else (None, c))"

text \<open>Lines 252-255: JwtHeader is required if JwtKey or JwtsFilename is present.\<close>

definition check_JwtHeader :: check where
  "check_JwtHeader c =
     (if (JwtsFilename c \<noteq> [] \<or> JwtKey c \<noteq> []) \<and> JwtHeader c = []
      then (Some ErrEmptyJwtHeader, c) else (None, c))"

text \<open>Lines 257-260: JwtKey or JwtsFilename is required if JwtHeader is present.\<close>

definition check_JwtSource :: check where
  "check_JwtSource c =
     (if JwtHeader c \<noteq> [] \<and> JwtsFilename c = [] \<and> JwtKey c = []
      then (Some ErrEmptyJwtSource, c) else (None, c))"

text \<open>Lines 262-274.\<close>

definition check_JwtKey :: "stdlib \<Rightarrow> check" where
  "check_JwtKey lib c =
     (if JwtKey c \<noteq> [] then
        (case os_OpenFile lib (JwtKey c) of
           NotExist \<Rightarrow> (Some ErrJwtKeyNotExist, c)
         | OpenFailed err \<Rightarrow> (Some (ErrJwtKeyOpen err), c)
         | Opened \<Rightarrow>
             if ReqTarget c = 0 then (Some ErrJwtNeedsReqs, c)
             else (None, c\<lparr>SendJWT := True\<rparr>))
      else (None, c))"

text \<open>Lines 276-288.\<close>

definition check_JwtsFilename :: "stdlib \<Rightarrow> check" where
  "check_JwtsFilename lib c =
     (if JwtsFilename c \<noteq> [] then
        (case os_OpenFile lib (JwtsFilename c) of
           NotExist \<Rightarrow> (Some (ErrJwtFileNotExist (JwtsFilename c)), c)
         | OpenFailed err \<Rightarrow> (Some (ErrJwtFileOpen err), c)
         | Opened \<Rightarrow>
             if ReqTarget c = 0 then (Some ErrJwtNeedsReqs, c)
             else (None, c\<lparr>SendJWT := True\<rparr>))
      else (None, c))"

text \<open>Lines 290-296: the first header without a colon is the error.\<close>

fun Headers_loop :: "string list \<Rightarrow> error option" where
  "Headers_loop [] = None"
| "Headers_loop (h # hs) =
     (if CHR '':'' \<notin> set h then Some (ErrHeaderNoColon h) else Headers_loop hs)"

definition check_Headers :: check where
  "check_Headers c = (Headers_loop (Headers c), c)"

text \<open>Lines 298-306.\<close>

definition check_BodyFile :: "stdlib \<Rightarrow> check" where
  "check_BodyFile lib c =
     (if length (BodyFile c) > 0 then
        (case os_OpenFile lib (BodyFile c) of
           NotExist \<Rightarrow> (Some ErrBodyFileNotExist, c)
         | OpenFailed err \<Rightarrow> (Some (ErrBodyFileOpen err), c)
         | Opened \<Rightarrow> (None, c))
      else (None, c))"

text \<open>Lines 308-310.\<close>

definition check_VerboseTicker :: check where
  "check_VerboseTicker c = (if VerboseTicker c = 0 then (Some ErrTickerZero, c) else (None, c))"

text \<open>Lines 312-314.\<close>

definition check_Method :: check where
  "check_Method c =
     (if \<not> methodAllowed (Method c) then (Some (ErrMethodNotAllowed (Method c)), c)
      else (None, c))"

text \<open>Lines 316-318.\<close>

definition check_WriteTimeout :: check where
  "check_WriteTimeout c =
     (if WriteTimeout c = 0 then (Some ErrWriteTimeoutZero, c) else (None, c))"

text \<open>Lines 319-321.\<close>

definition check_ReadTimeout :: check where
  "check_ReadTimeout c =
     (if ReadTimeout c = 0 then (Some ErrReadTimeoutZero, c) else (None, c))"

text \<open>Lines 323-325.\<close>

definition check_Budget :: check where
  "check_Budget c =
     (if ReqTarget c = 0 \<and> Duration c = 0 then (Some ErrNoBudget, c) else (None, c))"

text \<open>Lines 327-332.\<close>

definition check_JwtCustomClaimsJSON :: "stdlib \<Rightarrow> check" where
  "check_JwtCustomClaimsJSON lib c =
     (if JwtCustomClaimsJSON c \<noteq> [] then
        (case JwtCustomClaimsJSONStringToMap lib (JwtCustomClaimsJSON c) of
           Some err \<Rightarrow> (Some (ErrJwtClaims err), c)
         | None \<Rightarrow> (None, c))
      else (None, c))"

text \<open>The checks in the order of the source, in the groups the claims speak of.\<close>

definition checks_before_jwt :: "stdlib \<Rightarrow> check list" where
  "checks_before_jwt lib =
     [check_ParseRequestURI lib, check_ConnLimit_NoDuration, check_ConnLimit_Both,
      check_ZeroConns, check_regExHostURI, check_MTLSKey lib, check_MTLSCert lib]"

definition checks_jwt_header :: "check list" where
  "checks_jwt_header = [check_JwtHeader, check_JwtSource]"

definition checks_after_jwt :: "stdlib \<Rightarrow> check list" where
  "checks_after_jwt lib =
     [check_Headers, check_BodyFile lib, check_VerboseTicker, check_Method,
      check_WriteTimeout, check_ReadTimeout, check_Budget, check_JwtCustomClaimsJSON lib]"

definition Validate_checks :: "stdlib \<Rightarrow> check list" where
  "Validate_checks lib =
     checks_before_jwt lib @ checks_jwt_header @ [check_JwtKey lib, check_JwtsFilename lib]
       @ checks_after_jwt lib"

definition Validate :: "stdlib \<Rightarrow> Config \<Rightarrow> error option \<times> Config" where
  "Validate lib c = run_checks (Validate_checks lib) c"

section \<open>Notions used in the statements\<close>

text \<open>The number of requests a worker has issued: one latency sample is recorded for each.\<close>

definition issued :: "WorkerBase \<Rightarrow> nat" where
  "issued w = length (Stats.Reqs (stats w))"

text \<open>
  A check is framed when it changes no field but \<open>SendJWT\<close>, and blind when its verdict
  does not read \<open>SendJWT\<close>. The first error of a list of verdicts is what a sequence of
  framed, blind checks returns. A list of checks passes when it returns no error.
\<close>

definition frame_check :: "check \<Rightarrow> bool" where
  "frame_check f = (\<forall>c. \<exists>b. snd (f c) = c\<lparr>SendJWT := b\<rparr>)"

definition pure_check :: "check \<Rightarrow> bool" where
  "pure_check f = (\<forall>c. snd (f c) = c)"

definition blind_check :: "check \<Rightarrow> bool" where
  "blind_check f = (\<forall>c b. fst (f (c\<lparr>SendJWT := b\<rparr>)) = fst (f c))"

fun first_error :: "error option list \<Rightarrow> error option" where
  "first_error [] = None"
| "first_error (x # xs) = (case x of Some e \<Rightarrow> Some e | None \<Rightarrow> first_error xs)"

definition passes :: "check list \<Rightarrow> Config \<Rightarrow> bool" where
  "passes fs c = (fst (run_checks fs c) = None)"

text \<open>
  Validation has got past the \<^verbatim>\<open>JwtKey\<close> block (lines 262-274), or past the
  \<^verbatim>\<open>JwtsFilename\<close> block (lines 276-288), when the checks up to and including it
  return no error.
\<close>

definition past_JwtKey :: "stdlib \<Rightarrow> Config \<Rightarrow> bool" where
  "past_JwtKey lib c =
     passes (checks_before_jwt lib @ checks_jwt_header @ [check_JwtKey lib]) c"

definition past_JwtsFilename :: "stdlib \<Rightarrow> Config \<Rightarrow> bool" where
  "past_JwtsFilename lib c =
     passes (checks_before_jwt lib @ checks_jwt_header
               @ [check_JwtKey lib, check_JwtsFilename lib]) c"

text \<open>The errors of the token rules, lines 252-288.\<close>

fun is_jwt_error :: "error \<Rightarrow> bool" where
  "is_jwt_error ErrEmptyJwtHeader = True"
| "is_jwt_error ErrEmptyJwtSource = True"
| "is_jwt_error ErrJwtKeyNotExist = True"
| "is_jwt_error (ErrJwtKeyOpen err) = True"
| "is_jwt_error ErrJwtNeedsReqs = True"
| "is_jwt_error (ErrJwtFileNotExist name) = True"
| "is_jwt_error (ErrJwtFileOpen err) = True"
| "is_jwt_error e = False"




text \<open>Exactly one of the mTLS certificate path and the mTLS key path is set.\<close>

definition exactly_one_mtls_path :: "string \<Rightarrow> string \<Rightarrow> bool" where
  "exactly_one_mtls_path cert key = ((cert = []) \<noteq> (key = []))"

subsection \<open>Sample inputs\<close>

text \<open>
  A world in which \<^verbatim>\<open>url.ParseRequestURI\<close> accepts the two URIs used below, as Go does,
  three files exist, and the key pair \<^verbatim>\<open>client.crt\<close>, \<^verbatim>\<open>client.key\<close> loads.
\<close>

definition sample_lib :: stdlib where
  "sample_lib =
     \<lparr>url_ParseRequestURI =
        (\<lambda>s. if s = ''http://localhost:8080/x''
             then Inr \<lparr>Scheme = ''http'', Host = ''localhost:8080''\<rparr>
             else if s = ''http://example.com/path''
             then Inr \<lparr>Scheme = ''http'', Host = ''example.com''\<rparr>
             else Inl ''invalid URI for request''),
      os_OpenFile =
        (\<lambda>p. if p = ''jwt.key'' \<or> p = ''client.crt'' \<or> p = ''client.key'' then Opened
             else NotExist),
      json_Unmarshal = (\<lambda>s. if s = ''{}'' then None else Some ''unexpected end of JSON input''),
      tls_LoadX509KeyPair =
        (\<lambda>cert key. if cert = ''client.crt'' \<and> key = ''client.key''
                    then Inr ''client certificate''
                    else Inl ''tls: failed to find any PEM data''),
      http2_ConfigureClient = (\<lambda>cl t. Inr (cl\<lparr>IsTLS := True\<rparr>))\<rparr>"

text \<open>A Config that passes validation: 10 requests over 2 connections, no duration.\<close>

definition sample_Config :: Config where
  "sample_Config =
     \<lparr>Config.Ctx = (\<lambda>k. False), Config.ReqURI = ''http://localhost:8080/x'',
      Config.DisableKeepAlive = False, ReqTarget = 10, Conns = 2, Duration = 0,
      Config.MTLSKey = [], Config.MTLSCert = [], Config.SkipVerify = False,
      Config.ReadTimeout = 5000000000, Config.WriteTimeout = 5000000000,
      Config.Method = ''GET'', Config.Verbose = False, VerboseTicker = 1000000000,
      JwtKID = [], JwtKey = [], JwtSub = [], JwtCustomClaimsJSON = [], JwtIss = [],
      JwtAud = [], JwtHeader = [], JwtsFilename = [], SendJWT = False, Headers = [],
      Body = [], BodyFile = [], Client = ''fasthttp-1''\<rparr>"

text \<open>A worker's Config with a budget of 3 requests and a context that is never done.\<close>

definition sample_worker_Config :: worker_Config where
  "sample_worker_Config =
     \<lparr>worker_Config.ReqURI = ''http://localhost:8080/x'',
      worker_Config.DisableKeepAlive = False, worker_Config.SkipVerify = False,
      worker_Config.MTLSKey = [], worker_Config.MTLSCert = [], worker_Config.Reqs = 3,
      worker_Config.Ctx = (\<lambda>k. False), StartTrigger = 0, Until = 0, ReqEvery = 0,
      worker_Config.ReadTimeout = 5000000000, worker_Config.WriteTimeout = 5000000000,
      worker_Config.Method = ''GET'', worker_Config.Verbose = False, HTTPV2 = False\<rparr>"

definition sample_HostClient :: HostClient where
  "sample_HostClient =
     \<lparr>Addr = ''localhost:8080'', IsTLS = False, MaxConns = 1,
      HostClient.ReadTimeout = 5000000000, HostClient.WriteTimeout = 5000000000,
      DisableHeaderNamesNormalizing = True,
      TLSConfig = \<lparr>InsecureSkipVerify = False, Certificates = []\<rparr>\<rparr>"

text \<open>A Config of the net/http clients with no mTLS path set.\<close>

definition sample_http_clients_Config :: http_clients_Config where
  "sample_http_clients_Config =
     \<lparr>http_clients_Config.SkipVerify = False, http_clients_Config.MTLSCert = [],
      http_clients_Config.MTLSKey = [], http_clients_Config.ReadTimeout = 5000000000,
      http_clients_Config.WriteTimeout = 5000000000\<rparr>"

text \<open>A network on which every request is answered with status 200.\<close>

definition sample_network :: network where
  "sample_network = \<lparr>send = (\<lambda>k. Status 200), clock = (\<lambda>k. of_nat k)\<rparr>"

section \<open>The fixed-requests worker\<close>

lemmas worker_eval_defs =
  WorkerFixedReqs_Run_def baseConfig_def sample_worker_Config_def sample_network_def
  WorkerBase_run_def issued_def word_sless_alt

lemma config_WorkerBase_run [simp]: "config (WorkerBase_run net w) = config w"
  by (simp add: WorkerBase_run_def Let_def split: outcome.splits)

lemma issued_WorkerBase_run [simp]: "issued (WorkerBase_run net w) = Suc (issued w)"
  by (simp add: WorkerBase_run_def issued_def Let_def split: outcome.splits)

lemma config_funpow_run [simp]: "config ((WorkerBase_run net ^^ n) w) = config w"
  by (induction n) simp_all

lemma issued_funpow_run [simp]: "issued ((WorkerBase_run net ^^ n) w) = issued w + n"
  by (induction n) simp_all

lemma sint_succ_less:
  fixes i r :: int64
  assumes less: "i <s r"
  shows "sint (i + 1) = sint i + 1"
proof -
  have lt: "sint i < sint r" using less by (simp add: word_sless_alt)
  have "sint r < 2 ^ (LENGTH(64) - 1)" by (rule sint_lt)
  moreover have "- (2 ^ (LENGTH(64) - 1)) \<le> sint i" by (rule sint_ge)
  ultimately show ?thesis using lt by (simp add: sint_word_ariths signed_take_bit_int_eq_self)
qed

text \<open>
  While the context is never done, the loop started at counter \<open>i\<close> leaves through its
  condition after \<open>Reqs - i\<close> calls of \<^verbatim>\<open>w.run()\<close> (none when \<open>Reqs \<le> i\<close>).
\<close>

lemma WorkerFixedReqs_loop_never_done:
  "\<forall>k. \<not> worker_Config.Ctx (config w) k \<Longrightarrow>
   WorkerFixedReqs_loop net i k w =
     (False, k + nat (sint (worker_Config.Reqs (config w)) - sint i),
      (WorkerBase_run net ^^ nat (sint (worker_Config.Reqs (config w)) - sint i)) w)"
proof (induction net i k w rule: WorkerFixedReqs_loop.induct)
  case (1 net i k w)
  show ?case
  proof (cases "i <s worker_Config.Reqs (config w)")
    case True
    then have s: "sint (i + 1) = sint i + 1" by (rule sint_succ_less)
    from True have lt: "sint i < sint (worker_Config.Reqs (config w))"
      by (simp add: word_sless_alt)
    have nd: "\<not> worker_Config.Ctx (config w) k" using "1.prems" by simp
    have ih: "WorkerFixedReqs_loop net (i + 1) (Suc k) (WorkerBase_run net w) =
      (False, Suc k + nat (sint (worker_Config.Reqs (config w)) - sint (i + 1)),
       (WorkerBase_run net ^^ nat (sint (worker_Config.Reqs (config w)) - sint (i + 1)))
         (WorkerBase_run net w))"
      using "1.IH" [OF True nd] "1.prems" by simp
    have n: "nat (sint (worker_Config.Reqs (config w)) - sint i) =
      Suc (nat (sint (worker_Config.Reqs (config w)) - sint (i + 1)))"
      using lt s by simp
    show ?thesis
      by (subst WorkerFixedReqs_loop.simps)
        (simp add: True nd ih n funpow_Suc_right del: funpow.simps WorkerFixedReqs_loop.simps)
  next
    case False
    then have "\<not> sint i < sint (worker_Config.Reqs (config w))" by (simp add: word_sless_alt)
    then have "nat (sint (worker_Config.Reqs (config w)) - sint i) = 0" by simp
    then show ?thesis using False
      by (subst WorkerFixedReqs_loop.simps) (simp del: WorkerFixedReqs_loop.simps)
  qed
qed

text \<open>
  Without the verbose flag, a worker whose context is never done issues exactly its budget.
\<close>

lemma WorkerFixedReqs_Run_not_verbose:
  "\<forall>k. \<not> worker_Config.Ctx (config w) k \<Longrightarrow> \<not> worker_Config.Verbose (config w) \<Longrightarrow>
   issued (WorkerFixedReqs_Run net w) = issued w + nat (sint (worker_Config.Reqs (config w)))"
  by (simp add: WorkerFixedReqs_Run_def WorkerFixedReqs_loop_never_done
      del: WorkerFixedReqs_loop.simps)

text \<open>With the verbose flag, both loops run: the worker issues twice its budget.\<close>

lemma WorkerFixedReqs_Run_verbose:
  "\<forall>k. \<not> worker_Config.Ctx (config w) k \<Longrightarrow> worker_Config.Verbose (config w) \<Longrightarrow>
   issued (WorkerFixedReqs_Run net w) = issued w + 2 * nat (sint (worker_Config.Reqs (config w)))"
  by (simp add: WorkerFixedReqs_Run_def WorkerFixedReqs_loop_never_done
      del: WorkerFixedReqs_loop.simps)

text \<open>
  Claim C1. A fixed-requests worker with budget R, no transport error and a context that
  is never done is claimed to issue exactly R requests under any Verbose setting. The
  code does not: with \<^verbatim>\<open>Reqs = 1\<close> and \<^verbatim>\<open>Verbose = true\<close> the verbose loop issues one request
  and control falls through to the second loop, which issues another. The single worker
  completes 2 requests on a budget of 1.
\<close>

theorem WorkerFixedReqs_Run_verbose_budget_1:
  "issued (WorkerFixedReqs_Run sample_network
     (baseConfig (sample_worker_Config\<lparr>worker_Config.Reqs := 1, worker_Config.Verbose := True\<rparr>)
        sample_HostClient)) = 2 \<and>
   CompletedReqs (stats (WorkerFixedReqs_Run sample_network
     (baseConfig (sample_worker_Config\<lparr>worker_Config.Reqs := 1, worker_Config.Verbose := True\<rparr>)
        sample_HostClient))) = 2 \<and>
   FailedReqs (stats (WorkerFixedReqs_Run sample_network
     (baseConfig (sample_worker_Config\<lparr>worker_Config.Reqs := 1, worker_Config.Verbose := True\<rparr>)
        sample_HostClient))) = 0"
  by (simp add: worker_eval_defs)

text \<open>
  Claim C2. Running with \<^verbatim>\<open>Verbose = true\<close> is claimed to issue the same number of requests
  as running with \<^verbatim>\<open>Verbose = false\<close>. The code does not: on the same Config with a budget
  of 3, the verbose run issues 6 requests and completes 6, the other run 3.
\<close>

theorem WorkerFixedReqs_Run_verbose_differs:
  "issued (WorkerFixedReqs_Run sample_network
     (baseConfig (sample_worker_Config\<lparr>worker_Config.Verbose := True\<rparr>) sample_HostClient)) = 6 \<and>
   issued (WorkerFixedReqs_Run sample_network
     (baseConfig (sample_worker_Config\<lparr>worker_Config.Verbose := False\<rparr>) sample_HostClient)) = 3 \<and>
   CompletedReqs (stats (WorkerFixedReqs_Run sample_network
     (baseConfig (sample_worker_Config\<lparr>worker_Config.Verbose := True\<rparr>) sample_HostClient))) = 6 \<and>
   CompletedReqs (stats (WorkerFixedReqs_Run sample_network
     (baseConfig (sample_worker_Config\<lparr>worker_Config.Verbose := False\<rparr>) sample_HostClient))) = 3"
  by (simp add: worker_eval_defs)

section \<open>Config validation\<close>

lemmas check_defs =
  check_ParseRequestURI_def check_ConnLimit_NoDuration_def check_ConnLimit_Both_def
  check_ZeroConns_def check_regExHostURI_def check_MTLSKey_def check_MTLSCert_def
  check_JwtHeader_def check_JwtSource_def check_JwtKey_def check_JwtsFilename_def
  check_Headers_def check_BodyFile_def check_VerboseTicker_def check_Method_def
  check_WriteTimeout_def check_ReadTimeout_def check_Budget_def check_JwtCustomClaimsJSON_def

lemmas checks_defs =
  Validate_checks_def checks_before_jwt_def checks_jwt_header_def checks_after_jwt_def

lemma run_checks_append:
  "run_checks (fs @ gs) c =
     (case run_checks fs c of (Some e, c') \<Rightarrow> (Some e, c') | (None, c') \<Rightarrow> run_checks gs c')"
  by (induction fs arbitrary: c) (auto split: prod.splits option.splits)

lemma pure_frame: "pure_check f \<Longrightarrow> frame_check f"
  unfolding pure_check_def frame_check_def
proof (intro allI impI)
  fix c :: Config
  assume p: "\<forall>c. snd (f c) = c"
  have "c = c\<lparr>SendJWT := SendJWT c\<rparr>" by simp
  with p show "\<exists>b. snd (f c) = c\<lparr>SendJWT := b\<rparr>" by metis
qed

lemma run_checks_pure: "list_all pure_check fs \<Longrightarrow> snd (run_checks fs c) = c"
proof (induction fs arbitrary: c)
  case Nil
  then show ?case by simp
next
  case (Cons f fs)
  then have "snd (f c) = c" by (simp add: pure_check_def)
  with Cons show ?case by (cases "f c") (auto split: option.splits)
qed

lemma run_checks_blind:
  "list_all frame_check fs \<Longrightarrow> list_all blind_check fs \<Longrightarrow>
   fst (run_checks fs (c\<lparr>SendJWT := b\<rparr>)) = fst (run_checks fs c)"
proof (induction fs arbitrary: c b)
  case Nil
  then show ?case by simp
next
  case (Cons f fs)
  from Cons.prems have fr: "\<forall>c. \<exists>b. snd (f c) = c\<lparr>SendJWT := b\<rparr>"
    by (simp add: frame_check_def)
  from fr obtain b1 where p1: "snd (f c) = c\<lparr>SendJWT := b1\<rparr>" by blast
  from fr obtain b2 where p2: "snd (f (c\<lparr>SendJWT := b\<rparr>)) = c\<lparr>SendJWT := b, SendJWT := b2\<rparr>"
    by blast
  note p = p1 p2
  from Cons.prems have q: "fst (f (c\<lparr>SendJWT := b\<rparr>)) = fst (f c)"
    by (simp add: blind_check_def)
  from Cons have ih: "\<And>c b. fst (run_checks fs (c\<lparr>SendJWT := b\<rparr>)) = fst (run_checks fs c)" by simp
  have "fst (run_checks fs (c\<lparr>SendJWT := b2\<rparr>)) = fst (run_checks fs (c\<lparr>SendJWT := b1\<rparr>))"
    using ih by simp
  then show ?case using p q
    by (cases "f c"; cases "f (c\<lparr>SendJWT := b\<rparr>)") (auto split: option.splits)
qed

lemma run_checks_first_error:
  "list_all frame_check fs \<Longrightarrow> list_all blind_check fs \<Longrightarrow>
   fst (run_checks fs c) = first_error (map (\<lambda>f. fst (f c)) fs)"
proof (induction fs arbitrary: c)
  case Nil
  then show ?case by simp
next
  case (Cons f fs)
  from Cons.prems have fr: "\<forall>c. \<exists>b. snd (f c) = c\<lparr>SendJWT := b\<rparr>"
    by (simp add: frame_check_def)
  from fr obtain b1 where p: "snd (f c) = c\<lparr>SendJWT := b1\<rparr>" by blast
  from Cons have ih: "fst (run_checks fs c) = first_error (map (\<lambda>f. fst (f c)) fs)" by simp
  have "fst (run_checks fs (c\<lparr>SendJWT := b1\<rparr>)) = fst (run_checks fs c)"
    using Cons.prems by (simp add: run_checks_blind)
  then show ?case using p ih
    by (cases "f c") (auto split: option.splits)
qed

lemma first_error_None: "(first_error xs = None) = list_all (\<lambda>x. x = None) xs"
  by (induction xs) (auto split: option.splits)

lemma first_error_Some: "first_error xs = Some e \<Longrightarrow> Some e \<in> set xs"
  by (induction xs) (auto split: option.splits)

lemma frame_same: "\<exists>b. (c::Config) = c\<lparr>SendJWT := b\<rparr>"
  by (rule exI [of _ "SendJWT c"]) simp

lemma frame_set: "\<exists>b. (c::Config)\<lparr>SendJWT := True\<rparr> = c\<lparr>SendJWT := b\<rparr>"
  by (rule exI [of _ True]) simp

lemma frame_Validate_checks: "list_all frame_check (Validate_checks lib)"
  by (simp add: checks_defs frame_check_def check_defs frame_same frame_set
      split: sum.splits open_result.splits option.splits)

lemma blind_Validate_checks: "list_all blind_check (Validate_checks lib)"
  by (simp add: checks_defs blind_check_def check_defs
      split: sum.splits open_result.splits option.splits)

lemma Validate_first_error:
  "fst (Validate lib c) = first_error (map (\<lambda>f. fst (f c)) (Validate_checks lib))"
  by (simp add: Validate_def run_checks_first_error frame_Validate_checks blind_Validate_checks)

lemmas eval_defs =
  Validate_def checks_defs check_defs sample_lib_def sample_Config_def
  regExHostURI_MatchString_def MatchString_def regEx_def Opt_def Plus_def
  methodAllowed_def allowedMethods_def JwtCustomClaimsJSONStringToMap_def word_sless_alt

lemma Validate_errors:
  "fst (Validate lib c) =
     first_error
       [fst (check_ParseRequestURI lib c), fst (check_ConnLimit_NoDuration c),
        fst (check_ConnLimit_Both c), fst (check_ZeroConns c), fst (check_regExHostURI c),
        fst (check_MTLSKey lib c), fst (check_MTLSCert lib c), fst (check_JwtHeader c),
        fst (check_JwtSource c), fst (check_JwtKey lib c), fst (check_JwtsFilename lib c),
        fst (check_Headers c), fst (check_BodyFile lib c), fst (check_VerboseTicker c),
        fst (check_Method c), fst (check_WriteTimeout c), fst (check_ReadTimeout c),
        fst (check_Budget c), fst (check_JwtCustomClaimsJSON lib c)]"
  by (simp add: Validate_first_error checks_defs)

lemma Validate_None_iff:
  "(fst (Validate lib c) = None) =
     (fst (check_ParseRequestURI lib c) = None \<and> fst (check_ConnLimit_NoDuration c) = None \<and>
      fst (check_ConnLimit_Both c) = None \<and> fst (check_ZeroConns c) = None \<and>
      fst (check_regExHostURI c) = None \<and> fst (check_MTLSKey lib c) = None \<and>
      fst (check_MTLSCert lib c) = None \<and> fst (check_JwtHeader c) = None \<and>
      fst (check_JwtSource c) = None \<and> fst (check_JwtKey lib c) = None \<and>
      fst (check_JwtsFilename lib c) = None \<and> fst (check_Headers c) = None \<and>
      fst (check_BodyFile lib c) = None \<and> fst (check_VerboseTicker c) = None \<and>
      fst (check_Method c) = None \<and> fst (check_WriteTimeout c) = None \<and>
      fst (check_ReadTimeout c) = None \<and> fst (check_Budget c) = None \<and>
      fst (check_JwtCustomClaimsJSON lib c) = None)"
  unfolding Validate_errors first_error_None by simp

lemma check_Verbose:
  "fst (check_ParseRequestURI lib (c\<lparr>Config.Verbose := v\<rparr>)) = fst (check_ParseRequestURI lib c)"
  "fst (check_ConnLimit_NoDuration (c\<lparr>Config.Verbose := v\<rparr>)) = fst (check_ConnLimit_NoDuration c)"
  "fst (check_ConnLimit_Both (c\<lparr>Config.Verbose := v\<rparr>)) = fst (check_ConnLimit_Both c)"
  "fst (check_ZeroConns (c\<lparr>Config.Verbose := v\<rparr>)) = fst (check_ZeroConns c)"
  "fst (check_regExHostURI (c\<lparr>Config.Verbose := v\<rparr>)) = fst (check_regExHostURI c)"
  "fst (check_MTLSKey lib (c\<lparr>Config.Verbose := v\<rparr>)) = fst (check_MTLSKey lib c)"
  "fst (check_MTLSCert lib (c\<lparr>Config.Verbose := v\<rparr>)) = fst (check_MTLSCert lib c)"
  "fst (check_JwtHeader (c\<lparr>Config.Verbose := v\<rparr>)) = fst (check_JwtHeader c)"
  "fst (check_JwtSource (c\<lparr>Config.Verbose := v\<rparr>)) = fst (check_JwtSource c)"
  "fst (check_JwtKey lib (c\<lparr>Config.Verbose := v\<rparr>)) = fst (check_JwtKey lib c)"
  "fst (check_JwtsFilename lib (c\<lparr>Config.Verbose := v\<rparr>)) = fst (check_JwtsFilename lib c)"
  "fst (check_Headers (c\<lparr>Config.Verbose := v\<rparr>)) = fst (check_Headers c)"
  "fst (check_BodyFile lib (c\<lparr>Config.Verbose := v\<rparr>)) = fst (check_BodyFile lib c)"
  "fst (check_VerboseTicker (c\<lparr>Config.Verbose := v\<rparr>)) = fst (check_VerboseTicker c)"
  "fst (check_Method (c\<lparr>Config.Verbose := v\<rparr>)) = fst (check_Method c)"
  "fst (check_WriteTimeout (c\<lparr>Config.Verbose := v\<rparr>)) = fst (check_WriteTimeout c)"
  "fst (check_ReadTimeout (c\<lparr>Config.Verbose := v\<rparr>)) = fst (check_ReadTimeout c)"
  "fst (check_Budget (c\<lparr>Config.Verbose := v\<rparr>)) = fst (check_Budget c)"
  "fst (check_JwtCustomClaimsJSON lib (c\<lparr>Config.Verbose := v\<rparr>)) = fst (check_JwtCustomClaimsJSON lib c)"
  by (simp_all add: check_defs split: sum.splits open_result.splits option.splits)

text \<open>
  Claim C6, as amended. Validation rejects a zero read timeout, a zero write timeout and a
  zero verbose-tick interval for every Config, whether or not the verbose flag is set:
  the verbose flag has no influence on the result of validation.
\<close>

theorem Validate_zero_timeouts_and_ticker:
  "(Config.ReadTimeout c = 0 \<longrightarrow> fst (Validate lib c) \<noteq> None) \<and>
   (Config.WriteTimeout c = 0 \<longrightarrow> fst (Validate lib c) \<noteq> None) \<and>
   (VerboseTicker c = 0 \<longrightarrow> fst (Validate lib c) \<noteq> None) \<and>
   fst (Validate lib (c\<lparr>Config.Verbose := v\<rparr>)) = fst (Validate lib c)"
proof (intro conjI impI)
  assume "Config.ReadTimeout c = 0"
  then show "fst (Validate lib c) \<noteq> None"
    by (simp add: Validate_None_iff check_ReadTimeout_def)
next
  assume "Config.WriteTimeout c = 0"
  then show "fst (Validate lib c) \<noteq> None"
    by (simp add: Validate_None_iff check_WriteTimeout_def)
next
  assume "VerboseTicker c = 0"
  then show "fst (Validate lib c) \<noteq> None"
    by (simp add: Validate_None_iff check_VerboseTicker_def)
next
  show "fst (Validate lib (c\<lparr>Config.Verbose := v\<rparr>)) = fst (Validate lib c)"
    by (simp only: Validate_errors check_Verbose)
qed

theorem Validate_zero_timeouts_and_ticker_witness:
  "fst (Validate sample_lib (sample_Config\<lparr>VerboseTicker := 0\<rparr>)) \<noteq> None \<and>
   fst (Validate sample_lib (sample_Config\<lparr>Config.ReadTimeout := 0\<rparr>)) \<noteq> None \<and>
   fst (Validate sample_lib (sample_Config\<lparr>Config.WriteTimeout := 0\<rparr>)) \<noteq> None"
  using Validate_zero_timeouts_and_ticker [of "sample_Config\<lparr>VerboseTicker := 0\<rparr>" sample_lib]
    Validate_zero_timeouts_and_ticker [of "sample_Config\<lparr>Config.ReadTimeout := 0\<rparr>" sample_lib]
    Validate_zero_timeouts_and_ticker [of "sample_Config\<lparr>Config.WriteTimeout := 0\<rparr>" sample_lib]
  by (simp add: sample_Config_def)

text \<open>
  Claim C6 as stated fails: the sample Config is not verbose and passes validation, and
  the same Config with \<^verbatim>\<open>VerboseTicker = 0\<close> is rejected with "ticker value can't be zero".
\<close>

theorem Validate_ticker_counterexample:
  "\<not> Config.Verbose (sample_Config\<lparr>VerboseTicker := 0\<rparr>) \<and>
   fst (Validate sample_lib sample_Config) = None \<and>
   fst (Validate sample_lib (sample_Config\<lparr>VerboseTicker := 0\<rparr>)) = Some ErrTickerZero"
  by (simp add: eval_defs)

lemma pure_before: "list_all pure_check (checks_before_jwt lib @ checks_jwt_header)"
  by (simp add: checks_defs pure_check_def check_defs split: sum.splits open_result.splits)

lemma pure_after: "list_all pure_check (checks_after_jwt lib)"
  by (simp add: checks_defs pure_check_def check_defs split: option.splits open_result.splits)

lemma run_before: 
  "run_checks (checks_before_jwt lib @ checks_jwt_header) c =
     (fst (run_checks (checks_before_jwt lib @ checks_jwt_header) c), c)"
proof -
  have "snd (run_checks (checks_before_jwt lib @ checks_jwt_header) c) = c"
    by (rule run_checks_pure [OF pure_before])
  then show ?thesis by (metis prod.collapse)
qed

lemma run_after: 
  "run_checks (checks_after_jwt lib) c = (fst (run_checks (checks_after_jwt lib) c), c)"
proof -
  have "snd (run_checks (checks_after_jwt lib) c) = c"
    by (rule run_checks_pure [OF pure_after])
  then show ?thesis by (metis prod.collapse)
qed

lemma run_checks_append3:
  "run_checks (fs @ f # g # hs) c =
    (case run_checks fs c of (Some e, c') \<Rightarrow> (Some e, c')
     | (None, c') \<Rightarrow> (case f c' of (Some e, c1) \<Rightarrow> (Some e, c1)
        | (None, c1) \<Rightarrow> (case g c1 of (Some e, c2) \<Rightarrow> (Some e, c2)
           | (None, c2) \<Rightarrow> run_checks hs c2)))"
  by (simp add: run_checks_append split: prod.splits option.splits)

text \<open>
  Claim C9, as amended. \<^verbatim>\<open>Validate\<close> changes no field of the Config but \<open>SendJWT\<close>, and it
  sets \<open>SendJWT\<close> to true exactly when validation gets past the \<^verbatim>\<open>JwtKey\<close> block with
  \<open>JwtKey\<close> non-empty or past the \<^verbatim>\<open>JwtsFilename\<close> block with \<open>JwtsFilename\<close> non-empty,
  whatever the later checks return; it never sets it to false.
\<close>

theorem Validate_frame_SendJWT:
  "snd (Validate lib c) =
     c\<lparr>SendJWT := SendJWT c \<or> (JwtKey c \<noteq> [] \<and> past_JwtKey lib c)
                 \<or> (JwtsFilename c \<noteq> [] \<and> past_JwtsFilename lib c)\<rparr>"
proof -
  let ?A = "checks_before_jwt lib @ checks_jwt_header"
  obtain rA where A: "run_checks ?A c = (rA, c)" using run_before by blast
  have V: "Validate lib c = run_checks (?A @ check_JwtKey lib # check_JwtsFilename lib # checks_after_jwt lib) c"
    by (simp add: Validate_def Validate_checks_def)
  have K: "past_JwtKey lib c = (rA = None \<and> fst (check_JwtKey lib c) = None)"
    using A by (simp add: past_JwtKey_def passes_def run_checks_append [of ?A "[check_JwtKey lib]", simplified]
        split: prod.splits option.splits)
  have F: "past_JwtsFilename lib c = (rA = None \<and> fst (check_JwtKey lib c) = None
      \<and> fst (check_JwtsFilename lib (snd (check_JwtKey lib c))) = None)"
    using A by (simp add: past_JwtsFilename_def passes_def
        run_checks_append [of ?A "[check_JwtKey lib, check_JwtsFilename lib]", simplified]
        split: prod.splits option.splits)
  have B: "\<And>c'. snd (run_checks (checks_after_jwt lib) c') = c'"
    by (rule run_checks_pure [OF pure_after])
  show ?thesis
  proof (cases rA)
    case (Some e)
    show ?thesis
      unfolding V run_checks_append3 A K F
      using Some by simp
  next
    case None
    show ?thesis
      unfolding V run_checks_append3 A K F
      using None B
      by (simp add: check_JwtKey_def check_JwtsFilename_def
          split: open_result.splits)
  qed
qed

theorem Validate_frame_SendJWT_witness:
  "snd (Validate sample_lib (sample_Config\<lparr>JwtHeader := ''Authorization'', JwtKey := ''jwt.key''\<rparr>))
     = sample_Config\<lparr>JwtHeader := ''Authorization'', JwtKey := ''jwt.key'', SendJWT := True\<rparr> \<and>
   snd (Validate sample_lib sample_Config) = sample_Config"
  using Validate_frame_SendJWT [of sample_lib
      "sample_Config\<lparr>JwtHeader := ''Authorization'', JwtKey := ''jwt.key''\<rparr>"]
    Validate_frame_SendJWT [of sample_lib sample_Config]
  by (simp add: eval_defs past_JwtKey_def past_JwtsFilename_def passes_def)

text \<open>
  Claim C9 as stated fails: with a \<open>JwtKey\<close> file that exists and a \<open>JwtsFilename\<close> that
  does not, validation fails inside the token checks ("jwt file does not exist"), and
  \<open>SendJWT\<close>, false before, is true after.
\<close>

theorem Validate_SendJWT_counterexample:
  "\<not> SendJWT (sample_Config\<lparr>JwtHeader := ''Authorization'', JwtKey := ''jwt.key'',
                    JwtsFilename := ''missing.txt''\<rparr>) \<and>
   SendJWT (snd (Validate sample_lib
     (sample_Config\<lparr>JwtHeader := ''Authorization'', JwtKey := ''jwt.key'',
                    JwtsFilename := ''missing.txt''\<rparr>))) \<and>
   fst (Validate sample_lib
     (sample_Config\<lparr>JwtHeader := ''Authorization'', JwtKey := ''jwt.key'',
                    JwtsFilename := ''missing.txt''\<rparr>)) = Some (ErrJwtFileNotExist ''missing.txt'')"
  by (simp add: eval_defs)

lemma list_all_subset: "list_all P xs \<Longrightarrow> set ys \<subseteq> set xs \<Longrightarrow> list_all P ys"
  by (auto simp: list_all_iff)

lemma passes_iff:
  assumes "set fs \<subseteq> set (Validate_checks lib)"
  shows "passes fs c = list_all (\<lambda>f. fst (f c) = None) fs"
proof -
  have "list_all frame_check fs" "list_all blind_check fs"
    using assms frame_Validate_checks blind_Validate_checks list_all_subset by blast+
  then have "fst (run_checks fs c) = first_error (map (\<lambda>f. fst (f c)) fs)"
    by (rule run_checks_first_error)
  then show ?thesis
    by (simp add: passes_def first_error_None list_all_iff)
qed

lemma Headers_loop_Some: "Headers_loop hs = Some e \<Longrightarrow> \<exists>h. e = ErrHeaderNoColon h"
  by (induction hs) (auto split: if_splits)

lemma not_errConnLimit:
  "fst (check_ZeroConns c) \<noteq> Some errConnLimit"
  "fst (check_regExHostURI c) \<noteq> Some errConnLimit"
  "fst (check_MTLSKey lib c) \<noteq> Some errConnLimit"
  "fst (check_MTLSCert lib c) \<noteq> Some errConnLimit"
  "fst (check_JwtHeader c) \<noteq> Some errConnLimit"
  "fst (check_JwtSource c) \<noteq> Some errConnLimit"
  "fst (check_JwtKey lib c) \<noteq> Some errConnLimit"
  "fst (check_JwtsFilename lib c) \<noteq> Some errConnLimit"
  "fst (check_Headers c) \<noteq> Some errConnLimit"
  "fst (check_BodyFile lib c) \<noteq> Some errConnLimit"
  "fst (check_VerboseTicker c) \<noteq> Some errConnLimit"
  "fst (check_Method c) \<noteq> Some errConnLimit"
  "fst (check_WriteTimeout c) \<noteq> Some errConnLimit"
  "fst (check_ReadTimeout c) \<noteq> Some errConnLimit"
  "fst (check_Budget c) \<noteq> Some errConnLimit"
  "fst (check_JwtCustomClaimsJSON lib c) \<noteq> Some errConnLimit"
  by (auto simp: check_defs dest: Headers_loop_Some
      split: sum.splits open_result.splits option.splits if_splits)

lemma sint_eq_uint_small:
  fixes w :: "64 word"
  assumes "uint w < 2 ^ 63"
  shows "sint w = uint w"
proof -
  have "(0::int) \<le> uint w" by simp
  then have "- (2 ^ 63) \<le> uint w" by (rule order_trans [rotated]) simp
  with assms show ?thesis
    by (simp add: sint_uint signed_take_bit_int_eq_self)
qed

lemma errConnLimit_when_parsed:
  assumes parse: "url_ParseRequestURI lib (Config.ReqURI c) = Inr u"
  shows "(fst (Validate lib c) = Some errConnLimit) =
         (ReqTarget c <s Conns c \<and> (Duration c = 0 \<or> ReqTarget c \<noteq> 0))"
proof -
  let ?rest = "[fst (check_ZeroConns c), fst (check_regExHostURI c),
        fst (check_MTLSKey lib c), fst (check_MTLSCert lib c), fst (check_JwtHeader c),
        fst (check_JwtSource c), fst (check_JwtKey lib c), fst (check_JwtsFilename lib c),
        fst (check_Headers c), fst (check_BodyFile lib c), fst (check_VerboseTicker c),
        fst (check_Method c), fst (check_WriteTimeout c), fst (check_ReadTimeout c),
        fst (check_Budget c), fst (check_JwtCustomClaimsJSON lib c)]"
  have V: "fst (Validate lib c) =
     (case fst (check_ParseRequestURI lib c) of Some e \<Rightarrow> Some e
      | None \<Rightarrow> (case fst (check_ConnLimit_NoDuration c) of Some e \<Rightarrow> Some e
         | None \<Rightarrow> (case fst (check_ConnLimit_Both c) of Some e \<Rightarrow> Some e
            | None \<Rightarrow> first_error ?rest)))"
    unfolding Validate_errors by (simp only: first_error.simps)
  have "Some errConnLimit \<notin> set ?rest"
    by (simp add: not_errConnLimit [symmetric])
  then have R: "first_error ?rest \<noteq> Some errConnLimit"
    using first_error_Some by blast
  have P: "fst (check_ParseRequestURI lib c) = None"
    using parse by (simp add: check_ParseRequestURI_def)
  show ?thesis
    unfolding V P using R
    by (auto simp: check_ConnLimit_NoDuration_def check_ConnLimit_Both_def)
qed

text \<open>
  Claim C3, as amended. \<^verbatim>\<open>C = 0\<close> is always rejected; a pure FixedTime Config (\<open>D > 0\<close>,
  \<open>R = 0\<close>) is never rejected with the connections-exceed-requests error; and for a Config
  whose request URI parses, so that the connection rules are reached, that error is
  returned exactly when \<^verbatim>\<open>int64(Conns) > ReqTarget\<close> and (\<open>D = 0\<close> or \<open>R \<noteq> 0\<close>). For such a
  Config with \<open>R \<ge> 0\<close>, \<open>D \<ge> 0\<close> and a connection count below \<open>2^63\<close> this is: exactly when
  \<open>C > R\<close> and \<open>D = 0\<close>, or \<open>C > R\<close> and \<open>R > 0\<close> and \<open>D > 0\<close>.
\<close>

theorem Validate_errConnLimit:
  "(Conns c = 0 \<longrightarrow> fst (Validate lib c) \<noteq> None) \<and>
   (0 <s Duration c \<and> ReqTarget c = 0 \<longrightarrow> fst (Validate lib c) \<noteq> Some errConnLimit) \<and>
   (url_ParseRequestURI lib (Config.ReqURI c) = Inr u \<longrightarrow>
      ((fst (Validate lib c) = Some errConnLimit) =
         (ReqTarget c <s Conns c \<and> (Duration c = 0 \<or> ReqTarget c \<noteq> 0))) \<and>
      (0 \<le> sint (ReqTarget c) \<and> 0 \<le> sint (Duration c) \<and> uint (Conns c) < 2 ^ 63 \<longrightarrow>
         (fst (Validate lib c) = Some errConnLimit) =
           (sint (ReqTarget c) < uint (Conns c) \<and> Duration c = 0 \<or>
            sint (ReqTarget c) < uint (Conns c) \<and> 0 < sint (ReqTarget c)
              \<and> 0 < sint (Duration c))))"
proof (intro conjI impI)
  assume "Conns c = 0"
  then show "fst (Validate lib c) \<noteq> None"
    by (simp add: Validate_None_iff check_ZeroConns_def)
next
  assume ft: "0 <s Duration c \<and> ReqTarget c = 0"
  then have D: "Duration c \<noteq> 0" by auto
  show "fst (Validate lib c) \<noteq> Some errConnLimit"
  proof (cases "url_ParseRequestURI lib (Config.ReqURI c)")
    case (Inl err)
    then have "fst (check_ParseRequestURI lib c) = Some (ErrInvalidRequestURI err)"
      by (simp add: check_ParseRequestURI_def)
    then have "fst (Validate lib c) = Some (ErrInvalidRequestURI err)"
      unfolding Validate_errors by simp
    then show ?thesis by simp
  next
    case (Inr u')
    then show ?thesis using ft D by (simp add: errConnLimit_when_parsed)
  qed
next
  assume "url_ParseRequestURI lib (Config.ReqURI c) = Inr u"
  then show "(fst (Validate lib c) = Some errConnLimit) =
         (ReqTarget c <s Conns c \<and> (Duration c = 0 \<or> ReqTarget c \<noteq> 0))"
    by (rule errConnLimit_when_parsed)
next
  assume parse: "url_ParseRequestURI lib (Config.ReqURI c) = Inr u"
    and dom: "0 \<le> sint (ReqTarget c) \<and> 0 \<le> sint (Duration c) \<and> uint (Conns c) < 2 ^ 63"
  have C: "sint (Conns c) = uint (Conns c)" using dom by (simp add: sint_eq_uint_small)
  have R0: "(ReqTarget c \<noteq> 0) = (0 < sint (ReqTarget c))"
    using dom by (auto simp: signed_eq_0_iff order_less_le)
  have D0: "(Duration c \<noteq> 0) = (0 < sint (Duration c))"
    using dom by (auto simp: signed_eq_0_iff order_less_le)
  have L: "(ReqTarget c <s Conns c) = (sint (ReqTarget c) < uint (Conns c))"
    by (simp add: word_sless_alt C)
  show "(fst (Validate lib c) = Some errConnLimit) =
           (sint (ReqTarget c) < uint (Conns c) \<and> Duration c = 0 \<or>
            sint (ReqTarget c) < uint (Conns c) \<and> 0 < sint (ReqTarget c)
              \<and> 0 < sint (Duration c))"
    unfolding errConnLimit_when_parsed [OF parse] L using R0 D0 by auto
qed

theorem Validate_errConnLimit_witness:
  "fst (Validate sample_lib (sample_Config\<lparr>Conns := 0\<rparr>)) \<noteq> None \<and>
   fst (Validate sample_lib (sample_Config\<lparr>ReqTarget := 0, Duration := 2000000000\<rparr>))
     \<noteq> Some errConnLimit \<and>
   fst (Validate sample_lib (sample_Config\<lparr>Conns := 11\<rparr>)) = Some errConnLimit"
  using Validate_errConnLimit [of "sample_Config\<lparr>Conns := 0\<rparr>" sample_lib]
    Validate_errConnLimit [of "sample_Config\<lparr>ReqTarget := 0, Duration := 2000000000\<rparr>" sample_lib]
    Validate_errConnLimit [of "sample_Config\<lparr>Conns := 11\<rparr>" sample_lib
      "\<lparr>Scheme = ''http'', Host = ''localhost:8080''\<rparr>"]
  by (simp add: sample_Config_def sample_lib_def word_sless_alt)

text \<open>
  Claim C3 as stated fails. With 11 connections, 10 requests and no duration, a Config
  whose URI does not parse is rejected with the invalid-URI error of line 217, not with
  the connections-exceed-requests error: \<^verbatim>\<open>Validate\<close> returns at its first failing check.
  And with \<open>2^63\<close> connections the conversion \<^verbatim>\<open>int64(c.Conns)\<close> is negative, so that the
  same Config passes validation although \<open>C > R\<close> and \<open>D = 0\<close>.
\<close>

theorem Validate_errConnLimit_counterexample:
  "sint (ReqTarget (sample_Config\<lparr>Config.ReqURI := ''bad'', Conns := 11\<rparr>))
     < uint (Conns (sample_Config\<lparr>Config.ReqURI := ''bad'', Conns := 11\<rparr>)) \<and>
   Duration (sample_Config\<lparr>Config.ReqURI := ''bad'', Conns := 11\<rparr>) = 0 \<and>
   fst (Validate sample_lib (sample_Config\<lparr>Config.ReqURI := ''bad'', Conns := 11\<rparr>))
     = Some (ErrInvalidRequestURI ''invalid URI for request'') \<and>
   sint (ReqTarget (sample_Config\<lparr>Conns := 9223372036854775808\<rparr>))
     < uint (Conns (sample_Config\<lparr>Conns := 9223372036854775808\<rparr>)) \<and>
   Duration (sample_Config\<lparr>Conns := 9223372036854775808\<rparr>) = 0 \<and>
   fst (Validate sample_lib (sample_Config\<lparr>Conns := 9223372036854775808\<rparr>)) = None"
  by (simp add: eval_defs)







lemma not_jwt_error:
  "fst (check_ParseRequestURI lib c) = Some e \<Longrightarrow> \<not> is_jwt_error e"
  "fst (check_ConnLimit_NoDuration c) = Some e \<Longrightarrow> \<not> is_jwt_error e"
  "fst (check_ConnLimit_Both c) = Some e \<Longrightarrow> \<not> is_jwt_error e"
  "fst (check_ZeroConns c) = Some e \<Longrightarrow> \<not> is_jwt_error e"
  "fst (check_regExHostURI c) = Some e \<Longrightarrow> \<not> is_jwt_error e"
  "fst (check_MTLSKey lib c) = Some e \<Longrightarrow> \<not> is_jwt_error e"
  "fst (check_MTLSCert lib c) = Some e \<Longrightarrow> \<not> is_jwt_error e"
  "fst (check_Headers c) = Some e \<Longrightarrow> \<not> is_jwt_error e"
  "fst (check_BodyFile lib c) = Some e \<Longrightarrow> \<not> is_jwt_error e"
  "fst (check_VerboseTicker c) = Some e \<Longrightarrow> \<not> is_jwt_error e"
  "fst (check_Method c) = Some e \<Longrightarrow> \<not> is_jwt_error e"
  "fst (check_WriteTimeout c) = Some e \<Longrightarrow> \<not> is_jwt_error e"
  "fst (check_ReadTimeout c) = Some e \<Longrightarrow> \<not> is_jwt_error e"
  "fst (check_Budget c) = Some e \<Longrightarrow> \<not> is_jwt_error e"
  "fst (check_JwtCustomClaimsJSON lib c) = Some e \<Longrightarrow> \<not> is_jwt_error e"
  by (auto simp: check_defs dest: Headers_loop_Some
      split: sum.splits open_result.splits option.splits if_splits)

lemma subset_past_JwtsFilename:
  "set (checks_before_jwt lib @ checks_jwt_header @ [check_JwtKey lib, check_JwtsFilename lib])
     \<subseteq> set (Validate_checks lib)"
  by (auto simp: checks_defs)

lemma subset_before: "set (checks_before_jwt lib) \<subseteq> set (Validate_checks lib)"
  by (auto simp: checks_defs)

lemma jwt_source_checks_pass:
  assumes src: "JwtKey c \<noteq> [] \<or> JwtsFilename c \<noteq> []"
    and reqs: "0 <s ReqTarget c"
    and key: "JwtKey c \<noteq> [] \<longrightarrow> os_OpenFile lib (JwtKey c) = Opened"
    and fil: "JwtsFilename c \<noteq> [] \<longrightarrow> os_OpenFile lib (JwtsFilename c) = Opened"
  shows "fst (check_JwtSource c) = None"
    "fst (check_JwtKey lib c) = None" "fst (check_JwtsFilename lib c) = None"
proof -
  have r: "ReqTarget c \<noteq> 0" using reqs by auto
  show "fst (check_JwtSource c) = None" using src by (auto simp: check_JwtSource_def)
  show "fst (check_JwtKey lib c) = None" using key r by (simp add: check_JwtKey_def)
  show "fst (check_JwtsFilename lib c) = None" using fil r by (simp add: check_JwtsFilename_def)
qed

lemma Validate_error_origin:
  "fst (Validate lib c) = Some e \<Longrightarrow>
   Some e \<in> set
       [fst (check_ParseRequestURI lib c), fst (check_ConnLimit_NoDuration c),
        fst (check_ConnLimit_Both c), fst (check_ZeroConns c), fst (check_regExHostURI c),
        fst (check_MTLSKey lib c), fst (check_MTLSCert lib c), fst (check_JwtHeader c),
        fst (check_JwtSource c), fst (check_JwtKey lib c), fst (check_JwtsFilename lib c),
        fst (check_Headers c), fst (check_BodyFile lib c), fst (check_VerboseTicker c),
        fst (check_Method c), fst (check_WriteTimeout c), fst (check_ReadTimeout c),
        fst (check_Budget c), fst (check_JwtCustomClaimsJSON lib c)]"
  unfolding Validate_errors by (rule first_error_Some)

lemma token_rule_header:
  "(JwtKey c \<noteq> [] \<or> JwtsFilename c \<noteq> []) \<and> JwtHeader c = []
     \<longrightarrow> fst (Validate lib c) \<noteq> None"
proof
  assume "(JwtKey c \<noteq> [] \<or> JwtsFilename c \<noteq> []) \<and> JwtHeader c = []"
  then have "fst (check_JwtHeader c) \<noteq> None" by (auto simp: check_JwtHeader_def)
  then show "fst (Validate lib c) \<noteq> None" by (simp add: Validate_None_iff)
qed

lemma token_rule_source:
  "JwtHeader c \<noteq> [] \<and> JwtKey c = [] \<and> JwtsFilename c = []
     \<longrightarrow> fst (Validate lib c) \<noteq> None"
proof
  assume "JwtHeader c \<noteq> [] \<and> JwtKey c = [] \<and> JwtsFilename c = []"
  then have "fst (check_JwtSource c) \<noteq> None" by (simp add: check_JwtSource_def)
  then show "fst (Validate lib c) \<noteq> None" by (simp add: Validate_None_iff)
qed

lemma token_rule_budget:
  "(JwtKey c \<noteq> [] \<or> JwtsFilename c \<noteq> []) \<and> ReqTarget c = 0
     \<longrightarrow> fst (Validate lib c) \<noteq> None"
proof
  assume "(JwtKey c \<noteq> [] \<or> JwtsFilename c \<noteq> []) \<and> ReqTarget c = 0"
  then have "fst (check_JwtKey lib c) \<noteq> None \<or> fst (check_JwtsFilename lib c) \<noteq> None"
    by (auto simp: check_JwtKey_def check_JwtsFilename_def split: open_result.splits)
  then show "fst (Validate lib c) \<noteq> None" by (auto simp: Validate_None_iff)
qed

lemma token_rule_only_header:
  "(JwtKey c \<noteq> [] \<or> JwtsFilename c \<noteq> []) \<and> 0 <s ReqTarget c \<and>
   (JwtKey c \<noteq> [] \<longrightarrow> os_OpenFile lib (JwtKey c) = Opened) \<and>
   (JwtsFilename c \<noteq> [] \<longrightarrow> os_OpenFile lib (JwtsFilename c) = Opened)
     \<longrightarrow> (\<forall>e. fst (Validate lib c) = Some e \<and> is_jwt_error e
            \<longrightarrow> e = ErrEmptyJwtHeader \<and> JwtHeader c = [])"
proof (intro impI allI)
  fix e
  assume h: "(JwtKey c \<noteq> [] \<or> JwtsFilename c \<noteq> []) \<and> 0 <s ReqTarget c \<and>
    (JwtKey c \<noteq> [] \<longrightarrow> os_OpenFile lib (JwtKey c) = Opened) \<and>
    (JwtsFilename c \<noteq> [] \<longrightarrow> os_OpenFile lib (JwtsFilename c) = Opened)"
    and v: "fst (Validate lib c) = Some e \<and> is_jwt_error e"
  from h have h1: "JwtKey c \<noteq> [] \<or> JwtsFilename c \<noteq> []"
    and h3: "0 <s ReqTarget c"
    and h4: "JwtKey c \<noteq> [] \<longrightarrow> os_OpenFile lib (JwtKey c) = Opened"
    and h5: "JwtsFilename c \<noteq> [] \<longrightarrow> os_OpenFile lib (JwtsFilename c) = Opened"
    by blast+
  note j = jwt_source_checks_pass [OF h1 h3 h4 h5]
  from v have ve: "fst (Validate lib c) = Some e" by simp
  from ve have m: "Some e \<in> set
       [fst (check_ParseRequestURI lib c), fst (check_ConnLimit_NoDuration c),
        fst (check_ConnLimit_Both c), fst (check_ZeroConns c), fst (check_regExHostURI c),
        fst (check_MTLSKey lib c), fst (check_MTLSCert lib c), fst (check_JwtHeader c),
        fst (check_JwtSource c), fst (check_JwtKey lib c), fst (check_JwtsFilename lib c),
        fst (check_Headers c), fst (check_BodyFile lib c), fst (check_VerboseTicker c),
        fst (check_Method c), fst (check_WriteTimeout c), fst (check_ReadTimeout c),
        fst (check_Budget c), fst (check_JwtCustomClaimsJSON lib c)]"
    by (rule Validate_error_origin)
  from v have je: "is_jwt_error e" by simp
  have hd: "Some e = fst (check_JwtHeader c) \<Longrightarrow> e = ErrEmptyJwtHeader \<and> JwtHeader c = []"
    by (auto simp: check_JwtHeader_def split: if_splits)
  show "e = ErrEmptyJwtHeader \<and> JwtHeader c = []"
    using m je hd unfolding j by (auto dest: not_jwt_error [OF sym])
qed

lemma token_rule_pass:
  "(JwtKey c \<noteq> [] \<or> JwtsFilename c \<noteq> []) \<and> JwtHeader c \<noteq> [] \<and> 0 <s ReqTarget c \<and>
   (JwtKey c \<noteq> [] \<longrightarrow> os_OpenFile lib (JwtKey c) = Opened) \<and>
   (JwtsFilename c \<noteq> [] \<longrightarrow> os_OpenFile lib (JwtsFilename c) = Opened)
     \<longrightarrow> (\<forall>e. fst (Validate lib c) = Some e \<longrightarrow> \<not> is_jwt_error e) \<and>
         (passes (checks_before_jwt lib) c \<longrightarrow> past_JwtsFilename lib c)"
proof (intro impI)
  assume h: "(JwtKey c \<noteq> [] \<or> JwtsFilename c \<noteq> []) \<and> JwtHeader c \<noteq> [] \<and> 0 <s ReqTarget c \<and>
    (JwtKey c \<noteq> [] \<longrightarrow> os_OpenFile lib (JwtKey c) = Opened) \<and>
    (JwtsFilename c \<noteq> [] \<longrightarrow> os_OpenFile lib (JwtsFilename c) = Opened)"
  from h have h1: "JwtKey c \<noteq> [] \<or> JwtsFilename c \<noteq> []"
    and h2: "JwtHeader c \<noteq> []" and h3: "0 <s ReqTarget c"
    and h4: "JwtKey c \<noteq> [] \<longrightarrow> os_OpenFile lib (JwtKey c) = Opened"
    and h5: "JwtsFilename c \<noteq> [] \<longrightarrow> os_OpenFile lib (JwtsFilename c) = Opened"
    by blast+
  note j = jwt_source_checks_pass [OF h1 h3 h4 h5]
  have jh: "fst (check_JwtHeader c) = None" using h2 by (simp add: check_JwtHeader_def)
  have a: "\<forall>e. fst (Validate lib c) = Some e \<longrightarrow> \<not> is_jwt_error e"
  proof (intro allI impI)
    fix e
    assume "fst (Validate lib c) = Some e"
    then have "Some e \<in> set
       [fst (check_ParseRequestURI lib c), fst (check_ConnLimit_NoDuration c),
        fst (check_ConnLimit_Both c), fst (check_ZeroConns c), fst (check_regExHostURI c),
        fst (check_MTLSKey lib c), fst (check_MTLSCert lib c), fst (check_JwtHeader c),
        fst (check_JwtSource c), fst (check_JwtKey lib c), fst (check_JwtsFilename lib c),
        fst (check_Headers c), fst (check_BodyFile lib c), fst (check_VerboseTicker c),
        fst (check_Method c), fst (check_WriteTimeout c), fst (check_ReadTimeout c),
        fst (check_Budget c), fst (check_JwtCustomClaimsJSON lib c)]"
      by (rule Validate_error_origin)
    then show "\<not> is_jwt_error e"
      unfolding j jh by (auto dest: not_jwt_error [OF sym])
  qed
  have b: "passes (checks_before_jwt lib) c \<longrightarrow> past_JwtsFilename lib c"
  proof
    assume "passes (checks_before_jwt lib) c"
    then have "list_all (\<lambda>f. fst (f c) = None) (checks_before_jwt lib)"
      by (simp add: passes_iff [OF subset_before])
    then show "past_JwtsFilename lib c"
      unfolding past_JwtsFilename_def passes_iff [OF subset_past_JwtsFilename]
      using j jh by (simp add: checks_jwt_header_def)
  qed
  from a b show "(\<forall>e. fst (Validate lib c) = Some e \<longrightarrow> \<not> is_jwt_error e) \<and>
         (passes (checks_before_jwt lib) c \<longrightarrow> past_JwtsFilename lib c)" ..
qed

text \<open>
  Claim C7, as amended. Validation fails with an error whenever a token source (JWT key
  or JWT file) is configured but the token header is empty, whenever the token header
  is non-empty but no token source is configured, and whenever a token source is
  configured with \<open>R = 0\<close>. When a token source is configured, the token header is
  non-empty, \<open>R > 0\<close> and every configured source file opens, validation returns none of
  the errors of these rules, and gets past them if the checks before them pass. Without
  the condition on the header, the only error of these rules that can be returned is
  the one for the empty token header.
\<close>

theorem Validate_token_rules:
  "((JwtKey c \<noteq> [] \<or> JwtsFilename c \<noteq> []) \<and> JwtHeader c = []
      \<longrightarrow> fst (Validate lib c) \<noteq> None) \<and>
   (JwtHeader c \<noteq> [] \<and> JwtKey c = [] \<and> JwtsFilename c = []
      \<longrightarrow> fst (Validate lib c) \<noteq> None) \<and>
   ((JwtKey c \<noteq> [] \<or> JwtsFilename c \<noteq> []) \<and> ReqTarget c = 0
      \<longrightarrow> fst (Validate lib c) \<noteq> None) \<and>
   ((JwtKey c \<noteq> [] \<or> JwtsFilename c \<noteq> []) \<and> JwtHeader c \<noteq> [] \<and> 0 <s ReqTarget c \<and>
    (JwtKey c \<noteq> [] \<longrightarrow> os_OpenFile lib (JwtKey c) = Opened) \<and>
    (JwtsFilename c \<noteq> [] \<longrightarrow> os_OpenFile lib (JwtsFilename c) = Opened)
      \<longrightarrow> (\<forall>e. fst (Validate lib c) = Some e \<longrightarrow> \<not> is_jwt_error e) \<and>
          (passes (checks_before_jwt lib) c \<longrightarrow> past_JwtsFilename lib c)) \<and>
   ((JwtKey c \<noteq> [] \<or> JwtsFilename c \<noteq> []) \<and> 0 <s ReqTarget c \<and>
    (JwtKey c \<noteq> [] \<longrightarrow> os_OpenFile lib (JwtKey c) = Opened) \<and>
    (JwtsFilename c \<noteq> [] \<longrightarrow> os_OpenFile lib (JwtsFilename c) = Opened)
      \<longrightarrow> (\<forall>e. fst (Validate lib c) = Some e \<and> is_jwt_error e
             \<longrightarrow> e = ErrEmptyJwtHeader \<and> JwtHeader c = []))"
  by (intro conjI)
    (rule token_rule_header, rule token_rule_source, rule token_rule_budget,
     rule token_rule_pass, rule token_rule_only_header)

theorem Validate_token_rules_witness:
  "fst (Validate sample_lib (sample_Config\<lparr>JwtKey := ''jwt.key''\<rparr>)) \<noteq> None \<and>
   fst (Validate sample_lib (sample_Config\<lparr>JwtHeader := ''Authorization''\<rparr>)) \<noteq> None \<and>
   fst (Validate sample_lib (sample_Config\<lparr>JwtHeader := ''Authorization'', JwtKey := ''jwt.key'',
      ReqTarget := 0, Duration := 2000000000\<rparr>)) \<noteq> None \<and>
   past_JwtsFilename sample_lib (sample_Config\<lparr>JwtHeader := ''Authorization'', JwtKey := ''jwt.key''\<rparr>)"
  using Validate_token_rules [of "sample_Config\<lparr>JwtKey := ''jwt.key''\<rparr>" sample_lib]
    Validate_token_rules [of "sample_Config\<lparr>JwtHeader := ''Authorization''\<rparr>" sample_lib]
    Validate_token_rules [of "sample_Config\<lparr>JwtHeader := ''Authorization'', JwtKey := ''jwt.key'',
      ReqTarget := 0, Duration := 2000000000\<rparr>" sample_lib]
    Validate_token_rules [of "sample_Config\<lparr>JwtHeader := ''Authorization'', JwtKey := ''jwt.key''\<rparr>" sample_lib]
  by (simp add: eval_defs passes_def)

text \<open>
  Claim C7 as stated fails: with a JWT key file that exists, \<open>R = 10\<close> and an empty token
  header, validation does not succeed on these rules; it returns "config: empty jwt
  header".
\<close>

theorem Validate_token_rules_counterexample:
  "JwtKey (sample_Config\<lparr>JwtKey := ''jwt.key''\<rparr>) = ''jwt.key'' \<and>
   0 <s ReqTarget (sample_Config\<lparr>JwtKey := ''jwt.key''\<rparr>) \<and>
   os_OpenFile sample_lib ''jwt.key'' = Opened \<and>
   fst (Validate sample_lib (sample_Config\<lparr>JwtKey := ''jwt.key''\<rparr>)) = Some ErrEmptyJwtHeader \<and>
   is_jwt_error ErrEmptyJwtHeader"
  by (simp add: eval_defs)

section \<open>Building workers and clients\<close>

lemmas sample_worker_defs = sample_worker_Config_def sample_lib_def init_globals_def

lemma NewWorker_Inr:
  "getClient lib cfg = Inr cl \<Longrightarrow>
   fst (NewWorker lib g cfg) =
     Inr (if Until cfg = 0 then WorkerFixedReqs (baseConfig cfg cl)
          else if worker_Config.Reqs cfg = 0 then WorkerFixedTime (baseConfig cfg cl)
          else WorkerFixedTimeRequests (baseConfig cfg cl))"
  by (simp add: NewWorker_def TimeLimited_def UnlimitedReqs_def Let_def)

lemma NewWorker_Inl: "getClient lib cfg = Inl err \<Longrightarrow> NewWorker lib g cfg = (Inl err, g)"
  by (simp add: NewWorker_def)

text \<open>
  Claim C5, as amended. When \<^verbatim>\<open>getClient\<close> returns a client, \<^verbatim>\<open>NewWorker\<close> returns a
  WorkerFixedReqs when \<open>Until = 0\<close> (so when \<open>D = 0\<close> and \<open>R > 0\<close>), a WorkerFixedTime when
  \<open>Until \<noteq> 0\<close> and \<open>Reqs = 0\<close> (so when \<open>D > 0\<close> and \<open>R = 0\<close>), and a WorkerFixedTimeRequests
  when neither is zero (so when both are positive). When \<^verbatim>\<open>getClient\<close> fails, \<^verbatim>\<open>NewWorker\<close>
  returns its error, no worker, and leaves the package variables as they were. A Config
  with \<open>R = 0\<close> and \<open>D = 0\<close> is rejected by validation.
\<close>

theorem NewWorker_mode:
  "(getClient lib cfg = Inr cl \<longrightarrow>
      fst (NewWorker lib g cfg) =
        Inr (if Until cfg = 0 then WorkerFixedReqs (baseConfig cfg cl)
             else if worker_Config.Reqs cfg = 0 then WorkerFixedTime (baseConfig cfg cl)
             else WorkerFixedTimeRequests (baseConfig cfg cl)) \<and>
      (Until cfg = 0 \<and> 0 <s worker_Config.Reqs cfg \<longrightarrow>
         fst (NewWorker lib g cfg) = Inr (WorkerFixedReqs (baseConfig cfg cl))) \<and>
      (0 <s Until cfg \<and> worker_Config.Reqs cfg = 0 \<longrightarrow>
         fst (NewWorker lib g cfg) = Inr (WorkerFixedTime (baseConfig cfg cl))) \<and>
      (0 <s Until cfg \<and> 0 <s worker_Config.Reqs cfg \<longrightarrow>
         fst (NewWorker lib g cfg) = Inr (WorkerFixedTimeRequests (baseConfig cfg cl)))) \<and>
   (getClient lib cfg = Inl err \<longrightarrow> NewWorker lib g cfg = (Inl err, g)) \<and>
   (ReqTarget c = 0 \<and> Duration c = 0 \<longrightarrow> fst (Validate lib c) \<noteq> None)"
proof (intro conjI impI)
  assume "getClient lib cfg = Inr cl"
  then show "fst (NewWorker lib g cfg) =
        Inr (if Until cfg = 0 then WorkerFixedReqs (baseConfig cfg cl)
             else if worker_Config.Reqs cfg = 0 then WorkerFixedTime (baseConfig cfg cl)
             else WorkerFixedTimeRequests (baseConfig cfg cl))"
    by (rule NewWorker_Inr)
next
  assume "getClient lib cfg = Inr cl" and "Until cfg = 0 \<and> 0 <s worker_Config.Reqs cfg"
  then show "fst (NewWorker lib g cfg) = Inr (WorkerFixedReqs (baseConfig cfg cl))"
    by (simp add: NewWorker_Inr)
next
  assume cl: "getClient lib cfg = Inr cl" and m: "0 <s Until cfg \<and> worker_Config.Reqs cfg = 0"
  from m have "Until cfg \<noteq> 0" by auto
  with cl m show "fst (NewWorker lib g cfg) = Inr (WorkerFixedTime (baseConfig cfg cl))"
    by (simp add: NewWorker_Inr)
next
  assume cl: "getClient lib cfg = Inr cl" and m: "0 <s Until cfg \<and> 0 <s worker_Config.Reqs cfg"
  from m have "Until cfg \<noteq> 0" "worker_Config.Reqs cfg \<noteq> 0" by auto
  with cl show "fst (NewWorker lib g cfg) = Inr (WorkerFixedTimeRequests (baseConfig cfg cl))"
    by (simp add: NewWorker_Inr)
next
  assume "getClient lib cfg = Inl err"
  then show "NewWorker lib g cfg = (Inl err, g)" by (rule NewWorker_Inl)
next
  assume "ReqTarget c = 0 \<and> Duration c = 0"
  then have "fst (check_Budget c) \<noteq> None" by (simp add: check_Budget_def)
  then show "fst (Validate lib c) \<noteq> None" by (simp add: Validate_None_iff)
qed

lemma getClient_sample:
  "getClient sample_lib sample_worker_Config = Inr sample_HostClient"
  by (simp add: getClient_def sample_worker_defs sample_HostClient_def Let_def)

lemma getClient_bad:
  "getClient sample_lib (sample_worker_Config\<lparr>worker_Config.ReqURI := ''bad''\<rparr>)
     = Inl ''invalid URI for request''"
  by (simp add: getClient_def sample_worker_defs Let_def)

theorem NewWorker_mode_witness:
  "fst (NewWorker sample_lib init_globals sample_worker_Config)
     = Inr (WorkerFixedReqs (baseConfig sample_worker_Config sample_HostClient)) \<and>
   fst (NewWorker sample_lib init_globals
          (sample_worker_Config\<lparr>worker_Config.Reqs := 0, Until := 2000000000\<rparr>))
     = Inr (WorkerFixedTime
         (baseConfig (sample_worker_Config\<lparr>worker_Config.Reqs := 0, Until := 2000000000\<rparr>)
            sample_HostClient)) \<and>
   fst (NewWorker sample_lib init_globals (sample_worker_Config\<lparr>Until := 2000000000\<rparr>))
     = Inr (WorkerFixedTimeRequests
         (baseConfig (sample_worker_Config\<lparr>Until := 2000000000\<rparr>) sample_HostClient)) \<and>
   NewWorker sample_lib init_globals (sample_worker_Config\<lparr>worker_Config.ReqURI := ''bad''\<rparr>)
     = (Inl ''invalid URI for request'', init_globals) \<and>
   fst (Validate sample_lib (sample_Config\<lparr>ReqTarget := 0\<rparr>)) \<noteq> None"
  using NewWorker_mode [of sample_lib sample_worker_Config sample_HostClient init_globals
      "''invalid URI for request''" "sample_Config\<lparr>ReqTarget := 0\<rparr>"]
    NewWorker_mode [of sample_lib
      "sample_worker_Config\<lparr>worker_Config.Reqs := 0, Until := 2000000000\<rparr>"
      sample_HostClient init_globals "''invalid URI for request''" sample_Config]
    NewWorker_mode [of sample_lib "sample_worker_Config\<lparr>Until := 2000000000\<rparr>"
      sample_HostClient init_globals "''invalid URI for request''" sample_Config]
    NewWorker_mode [of sample_lib "sample_worker_Config\<lparr>worker_Config.ReqURI := ''bad''\<rparr>"
      sample_HostClient init_globals "''invalid URI for request''" sample_Config]
  by (simp add: getClient_def sample_worker_defs sample_HostClient_def sample_Config_def
      Let_def word_sless_alt)

text \<open>
  Claim C5 as stated fails: with \<open>D = 0\<close> and \<open>R = 3\<close> but a request URI that does not
  parse, \<^verbatim>\<open>NewWorker\<close> returns the error of \<^verbatim>\<open>getClient\<close> (lines 64-67) and no worker.
\<close>

theorem NewWorker_mode_counterexample:
  "Until (sample_worker_Config\<lparr>worker_Config.ReqURI := ''bad''\<rparr>) = 0 \<and>
   0 <s worker_Config.Reqs (sample_worker_Config\<lparr>worker_Config.ReqURI := ''bad''\<rparr>) \<and>
   fst (NewWorker sample_lib init_globals (sample_worker_Config\<lparr>worker_Config.ReqURI := ''bad''\<rparr>))
     = Inl ''invalid URI for request''"
  by (simp add: NewWorker_def getClient_def sample_worker_defs Let_def word_sless_alt)

lemma NewWorker_keeps_requestPool:
  "requestPool g = Some p \<Longrightarrow> requestPool (snd (NewWorker lib g cfg)) = Some p"
  by (simp add: NewWorker_def Let_def split: sum.splits)

lemma NewWorker_keeps_responsePool:
  "responsePool g = Some p \<Longrightarrow> responsePool (snd (NewWorker lib g cfg)) = Some p"
  by (simp add: NewWorker_def Let_def split: sum.splits)

lemma NewWorker_calls_keep_requestPool:
  "requestPool g = Some p \<Longrightarrow> requestPool (NewWorker_calls lib g cfgs) = Some p"
  by (induction cfgs arbitrary: g) (simp_all add: NewWorker_keeps_requestPool)

lemma NewWorker_calls_keep_responsePool:
  "responsePool g = Some p \<Longrightarrow> responsePool (NewWorker_calls lib g cfgs) = Some p"
  by (induction cfgs arbitrary: g) (simp_all add: NewWorker_keeps_responsePool)

lemma NewWorker_sets_requestPool:
  "getClient lib cfg = Inr cl \<Longrightarrow> requestPool g = None \<Longrightarrow>
   requestPool (snd (NewWorker lib g cfg)) = Some (Pool (requestPool_New cfg))"
  by (simp add: NewWorker_def Let_def)

lemma NewWorker_sets_responsePool:
  "getClient lib cfg = Inr cl \<Longrightarrow> responsePool (snd (NewWorker lib g cfg)) \<noteq> None"
  by (simp add: NewWorker_def Let_def)

text \<open>
  Claim C8, as amended. The package-level pools are initialised at most once: a pool
  that is set is left as it is by every later sequence of \<^verbatim>\<open>NewWorker\<close> calls; a call that
  fails in \<^verbatim>\<open>getClient\<close> returns before the pools are touched; and the first call that gets
  past \<^verbatim>\<open>getClient\<close> while \<^verbatim>\<open>requestPool\<close> is nil captures its own Config, so that after it
  and any later calls, whatever their ReqURI, Method or DisableKeepAlive, the pooled
  request template is the one built from that Config.
\<close>

theorem NewWorker_pools_once:
  "(requestPool g = Some p \<longrightarrow> requestPool (NewWorker_calls lib g cfgs) = Some p) \<and>
   (responsePool g = Some q \<longrightarrow> responsePool (NewWorker_calls lib g cfgs) = Some q) \<and>
   (getClient lib cfg = Inl err \<longrightarrow> snd (NewWorker lib g cfg) = g) \<and>
   (getClient lib cfg = Inr cl \<and> requestPool g = None \<longrightarrow>
      requestPool (NewWorker_calls lib (snd (NewWorker lib g cfg)) cfgs)
        = Some (Pool (requestPool_New cfg)))"
proof (intro conjI impI)
  assume "requestPool g = Some p"
  then show "requestPool (NewWorker_calls lib g cfgs) = Some p"
    by (rule NewWorker_calls_keep_requestPool)
next
  assume "responsePool g = Some q"
  then show "responsePool (NewWorker_calls lib g cfgs) = Some q"
    by (rule NewWorker_calls_keep_responsePool)
next
  assume "getClient lib cfg = Inl err"
  then show "snd (NewWorker lib g cfg) = g" by (simp add: NewWorker_Inl)
next
  assume "getClient lib cfg = Inr cl \<and> requestPool g = None"
  then have "requestPool (snd (NewWorker lib g cfg)) = Some (Pool (requestPool_New cfg))"
    by (simp add: NewWorker_sets_requestPool)
  then show "requestPool (NewWorker_calls lib (snd (NewWorker lib g cfg)) cfgs)
        = Some (Pool (requestPool_New cfg))"
    by (rule NewWorker_calls_keep_requestPool)
qed

theorem NewWorker_pools_once_witness:
  "requestPool (NewWorker_calls sample_lib
      (snd (NewWorker sample_lib init_globals sample_worker_Config))
      [sample_worker_Config\<lparr>worker_Config.ReqURI := ''http://example.com/path'',
                            worker_Config.Method := ''POST'',
                            worker_Config.DisableKeepAlive := True\<rparr>])
     = Some (Pool \<lparr>Header = [], MethodBytes = [], RequestURI = ''http://localhost:8080/x''\<rparr>) \<and>
   snd (NewWorker sample_lib init_globals (sample_worker_Config\<lparr>worker_Config.ReqURI := ''bad''\<rparr>))
     = init_globals"
  using NewWorker_pools_once [of init_globals
      "Pool \<lparr>Header = [], MethodBytes = [], RequestURI = []\<rparr>" sample_lib
      "[sample_worker_Config\<lparr>worker_Config.ReqURI := ''http://example.com/path'',
                            worker_Config.Method := ''POST'',
                            worker_Config.DisableKeepAlive := True\<rparr>]"
      "Pool Response" sample_worker_Config "''invalid URI for request''" sample_HostClient]
    NewWorker_pools_once [of init_globals
      "Pool \<lparr>Header = [], MethodBytes = [], RequestURI = []\<rparr>" sample_lib "[]"
      "Pool Response" "sample_worker_Config\<lparr>worker_Config.ReqURI := ''bad''\<rparr>"
      "''invalid URI for request''" sample_HostClient]
  by (simp add: getClient_def sample_worker_defs sample_HostClient_def requestPool_New_def Let_def)

text \<open>
  Claim C8 as stated fails: when the first call fails in \<^verbatim>\<open>getClient\<close> (its URI does not
  parse), the pools stay nil and the second call initialises them: after the second
  call the pooled template carries the URI of the second call's Config, not the first's.
\<close>

theorem NewWorker_pools_counterexample:
  "requestPool (NewWorker_calls sample_lib init_globals
      [sample_worker_Config\<lparr>worker_Config.ReqURI := ''bad''\<rparr>, sample_worker_Config])
     = Some (Pool \<lparr>Header = [], MethodBytes = [], RequestURI = ''http://localhost:8080/x''\<rparr>) \<and>
   requestPool_New (sample_worker_Config\<lparr>worker_Config.ReqURI := ''bad''\<rparr>)
     = \<lparr>Header = [], MethodBytes = [], RequestURI = ''bad''\<rparr>"
  by (simp add: NewWorker_def getClient_def sample_worker_defs requestPool_New_def Let_def)

lemma getClient_one_path:
  assumes one: "exactly_one_mtls_path (worker_Config.MTLSCert cfg) (worker_Config.MTLSKey cfg)"
    and parse: "url_ParseRequestURI lib (worker_Config.ReqURI cfg) = Inr u"
  shows "\<exists>cl0. Certificates (TLSConfig cl0) = [] \<and>
           getClient lib cfg =
             (if \<not> HTTPV2 cfg then Inr cl0
              else http2_ConfigureClient lib cl0 (worker_Config.ReadTimeout cfg))"
proof -
  from one have n: "\<not> (worker_Config.MTLSCert cfg \<noteq> [] \<and> worker_Config.MTLSKey cfg \<noteq> [])"
    by (auto simp: exactly_one_mtls_path_def)
  let ?cl = "\<lparr>Addr = Host u, IsTLS = (Scheme u = ''https''), MaxConns = 1,
      HostClient.ReadTimeout = worker_Config.ReadTimeout cfg,
      HostClient.WriteTimeout = worker_Config.WriteTimeout cfg,
      DisableHeaderNamesNormalizing = True,
      TLSConfig = \<lparr>InsecureSkipVerify = worker_Config.SkipVerify cfg, Certificates = []\<rparr>\<rparr>"
  have "getClient lib cfg =
             (if \<not> HTTPV2 cfg then Inr ?cl
              else http2_ConfigureClient lib ?cl (worker_Config.ReadTimeout cfg))"
    using n parse by (auto simp: getClient_def Let_def)
  moreover have "Certificates (TLSConfig ?cl) = []" by simp
  ultimately show ?thesis by blast
qed

lemma getClient_certificates:
  assumes ok: "getClient lib cfg = Inr cl" and h1: "\<not> HTTPV2 cfg"
  shows "(Certificates (TLSConfig cl) \<noteq> []) =
         (worker_Config.MTLSCert cfg \<noteq> [] \<and> worker_Config.MTLSKey cfg \<noteq> [])"
  using ok h1
  by (auto simp: getClient_def Let_def split: sum.splits if_splits)

lemma GetNetHTTPClient_certificates:
  assumes ok: "GetNetHTTPClient lib hc = Inr c"
  shows "(Certificates (TLSClientConfig c) \<noteq> []) =
         (http_clients_Config.MTLSCert hc \<noteq> [] \<and> http_clients_Config.MTLSKey hc \<noteq> [])"
  using ok
  by (auto simp: GetNetHTTPClient_def Let_def split: sum.splits if_splits)

text \<open>
  Claim C10, as amended. With exactly one of the two mTLS paths set, no key pair is
  loaded and no error is reported for the path that is set: \<^verbatim>\<open>GetNetHTTPClient\<close> succeeds
  with a TLS configuration that carries no client certificate, and \<^verbatim>\<open>getClient\<close>, when the
  URI parses, builds a client without a certificate, which it returns, or hands to
  \<^verbatim>\<open>http2.ConfigureClient\<close> when HTTP/2 is selected. With both paths set, a key pair that
  does not load makes the construction fail with that error. A client that is returned
  (for \<^verbatim>\<open>getClient\<close>: without HTTP/2, where the library does not touch it) carries a
  certificate exactly when both paths are set.
\<close>

theorem client_certificate_attached:
  "(exactly_one_mtls_path (worker_Config.MTLSCert cfg) (worker_Config.MTLSKey cfg) \<and>
    url_ParseRequestURI lib (worker_Config.ReqURI cfg) = Inr u \<longrightarrow>
      (\<exists>cl0. Certificates (TLSConfig cl0) = [] \<and>
         getClient lib cfg =
           (if \<not> HTTPV2 cfg then Inr cl0
            else http2_ConfigureClient lib cl0 (worker_Config.ReadTimeout cfg)))) \<and>
   (exactly_one_mtls_path (http_clients_Config.MTLSCert hc) (http_clients_Config.MTLSKey hc) \<longrightarrow>
      GetNetHTTPClient lib hc =
        Inr \<lparr>TLSClientConfig =
               \<lparr>InsecureSkipVerify = http_clients_Config.SkipVerify hc, Certificates = []\<rparr>,
             Timeout = http_clients_Config.ReadTimeout hc + http_clients_Config.WriteTimeout hc\<rparr>) \<and>
   (worker_Config.MTLSCert cfg \<noteq> [] \<and> worker_Config.MTLSKey cfg \<noteq> [] \<and>
    tls_LoadX509KeyPair lib (worker_Config.MTLSCert cfg) (worker_Config.MTLSKey cfg) = Inl err \<longrightarrow>
      getClient lib cfg = Inl err) \<and>
   (http_clients_Config.MTLSCert hc \<noteq> [] \<and> http_clients_Config.MTLSKey hc \<noteq> [] \<and>
    tls_LoadX509KeyPair lib (http_clients_Config.MTLSCert hc) (http_clients_Config.MTLSKey hc)
      = Inl err \<longrightarrow>
      GetNetHTTPClient lib hc = Inl err) \<and>
   (getClient lib cfg = Inr cl \<and> \<not> HTTPV2 cfg \<longrightarrow>
      (Certificates (TLSConfig cl) \<noteq> []) =
        (worker_Config.MTLSCert cfg \<noteq> [] \<and> worker_Config.MTLSKey cfg \<noteq> [])) \<and>
   (GetNetHTTPClient lib hc = Inr c \<longrightarrow>
      (Certificates (TLSClientConfig c) \<noteq> []) =
        (http_clients_Config.MTLSCert hc \<noteq> [] \<and> http_clients_Config.MTLSKey hc \<noteq> []))"
proof (intro conjI impI)
  assume "exactly_one_mtls_path (worker_Config.MTLSCert cfg) (worker_Config.MTLSKey cfg) \<and>
    url_ParseRequestURI lib (worker_Config.ReqURI cfg) = Inr u"
  then show "\<exists>cl0. Certificates (TLSConfig cl0) = [] \<and>
         getClient lib cfg =
           (if \<not> HTTPV2 cfg then Inr cl0
            else http2_ConfigureClient lib cl0 (worker_Config.ReadTimeout cfg))"
    by (simp add: getClient_one_path)
next
  assume "exactly_one_mtls_path (http_clients_Config.MTLSCert hc) (http_clients_Config.MTLSKey hc)"
  then have "\<not> (http_clients_Config.MTLSCert hc \<noteq> [] \<and> http_clients_Config.MTLSKey hc \<noteq> [])"
    by (auto simp: exactly_one_mtls_path_def)
  then show "GetNetHTTPClient lib hc =
        Inr \<lparr>TLSClientConfig =
               \<lparr>InsecureSkipVerify = http_clients_Config.SkipVerify hc, Certificates = []\<rparr>,
             Timeout = http_clients_Config.ReadTimeout hc + http_clients_Config.WriteTimeout hc\<rparr>"
    by (auto simp: GetNetHTTPClient_def Let_def)
next
  assume "worker_Config.MTLSCert cfg \<noteq> [] \<and> worker_Config.MTLSKey cfg \<noteq> [] \<and>
    tls_LoadX509KeyPair lib (worker_Config.MTLSCert cfg) (worker_Config.MTLSKey cfg) = Inl err"
  then show "getClient lib cfg = Inl err" by (simp add: getClient_def Let_def)
next
  assume "http_clients_Config.MTLSCert hc \<noteq> [] \<and> http_clients_Config.MTLSKey hc \<noteq> [] \<and>
    tls_LoadX509KeyPair lib (http_clients_Config.MTLSCert hc) (http_clients_Config.MTLSKey hc)
      = Inl err"
  then show "GetNetHTTPClient lib hc = Inl err" by (simp add: GetNetHTTPClient_def Let_def)
next
  assume "getClient lib cfg = Inr cl \<and> \<not> HTTPV2 cfg"
  then have "getClient lib cfg = Inr cl" and "\<not> HTTPV2 cfg" by simp_all
  then show "(Certificates (TLSConfig cl) \<noteq> []) =
        (worker_Config.MTLSCert cfg \<noteq> [] \<and> worker_Config.MTLSKey cfg \<noteq> [])"
    by (rule getClient_certificates)
next
  assume "GetNetHTTPClient lib hc = Inr c"
  then show "(Certificates (TLSClientConfig c) \<noteq> []) =
        (http_clients_Config.MTLSCert hc \<noteq> [] \<and> http_clients_Config.MTLSKey hc \<noteq> [])"
    by (rule GetNetHTTPClient_certificates)
qed

theorem client_certificate_attached_witness:
  "getClient sample_lib (sample_worker_Config\<lparr>worker_Config.MTLSCert := ''client.crt''\<rparr>)
     = Inr sample_HostClient \<and>
   Certificates (TLSConfig sample_HostClient) = [] \<and>
   GetNetHTTPClient sample_lib
       (sample_http_clients_Config\<lparr>http_clients_Config.MTLSKey := ''client.key''\<rparr>)
     = Inr \<lparr>TLSClientConfig = \<lparr>InsecureSkipVerify = False, Certificates = []\<rparr>,
            Timeout = 10000000000\<rparr> \<and>
   getClient sample_lib
       (sample_worker_Config\<lparr>worker_Config.MTLSCert := ''client.crt'',
                             worker_Config.MTLSKey := ''jwt.key''\<rparr>)
     = Inl ''tls: failed to find any PEM data'' \<and>
   GetNetHTTPClient sample_lib
       (sample_http_clients_Config\<lparr>http_clients_Config.MTLSCert := ''client.crt'',
                                   http_clients_Config.MTLSKey := ''jwt.key''\<rparr>)
     = Inl ''tls: failed to find any PEM data''"
  using client_certificate_attached [of
      "sample_worker_Config\<lparr>worker_Config.MTLSCert := ''client.crt''\<rparr>" sample_lib
      "\<lparr>Scheme = ''http'', Host = ''localhost:8080''\<rparr>"
      "sample_http_clients_Config\<lparr>http_clients_Config.MTLSKey := ''client.key''\<rparr>"
      "''tls: failed to find any PEM data''" sample_HostClient
      "\<lparr>TLSClientConfig = \<lparr>InsecureSkipVerify = False, Certificates = []\<rparr>,
        Timeout = 10000000000\<rparr>"]
    client_certificate_attached [of
      "sample_worker_Config\<lparr>worker_Config.MTLSCert := ''client.crt'',
                            worker_Config.MTLSKey := ''jwt.key''\<rparr>" sample_lib
      "\<lparr>Scheme = ''http'', Host = ''localhost:8080''\<rparr>"
      "sample_http_clients_Config\<lparr>http_clients_Config.MTLSCert := ''client.crt'',
                                  http_clients_Config.MTLSKey := ''jwt.key''\<rparr>"
      "''tls: failed to find any PEM data''" sample_HostClient
      "\<lparr>TLSClientConfig = \<lparr>InsecureSkipVerify = False, Certificates = []\<rparr>,
        Timeout = 10000000000\<rparr>"]
  by (simp add: getClient_def GetNetHTTPClient_def sample_worker_defs sample_HostClient_def
      sample_http_clients_Config_def exactly_one_mtls_path_def Let_def)

text \<open>
  Claim C10 as stated fails: with both paths set to files that are no key pair, no
  certificate is attached to any transport; both constructors return the error of
  \<^verbatim>\<open>tls.LoadX509KeyPair\<close>.
\<close>

theorem client_certificate_counterexample:
  "worker_Config.MTLSCert (sample_worker_Config\<lparr>worker_Config.MTLSCert := ''client.crt'',
       worker_Config.MTLSKey := ''jwt.key''\<rparr>) = ''client.crt'' \<and>
   worker_Config.MTLSKey (sample_worker_Config\<lparr>worker_Config.MTLSCert := ''client.crt'',
       worker_Config.MTLSKey := ''jwt.key''\<rparr>) = ''jwt.key'' \<and>
   getClient sample_lib
       (sample_worker_Config\<lparr>worker_Config.MTLSCert := ''client.crt'',
                             worker_Config.MTLSKey := ''jwt.key''\<rparr>)
     = Inl ''tls: failed to find any PEM data'' \<and>
   GetNetHTTPClient sample_lib
       (sample_http_clients_Config\<lparr>http_clients_Config.MTLSCert := ''client.crt'',
                                   http_clients_Config.MTLSKey := ''jwt.key''\<rparr>)
     = Inl ''tls: failed to find any PEM data''"
  by (simp add: getClient_def GetNetHTTPClient_def sample_worker_defs
      sample_http_clients_Config_def Let_def)

end
